theory Spec2Isabelle
  imports Main
begin

section \<open>The source crawler of the sourcing agent\<close>

text \<open>
  A shallow embedding of \<^verbatim>\<open>src/utils/scraper.py\<close> (class \<^verbatim>\<open>CannabisSourceScraper\<close>).
  Python strings are lists of code points; a \<^typ>\<open>char\<close> stands for one code point
  below 256. The libraries the scraper calls (the network client, the clock, the JSON
  and HTML parsers, the regular expression engine) are parameters of the model.
\<close>

subsection \<open>Source descriptors and the catalog\<close>

text \<open>
  A descriptor is a JSON object; \<^verbatim>\<open>source.get(k)\<close> is \<open>None\<close> for an absent key.
\<close>

record descriptor =
  d_url :: "string option"
  d_name :: "string option"
  d_products :: "string list option"
  d_services :: "string list option"
  d_location :: "string option"

text \<open>
  An entry of a catalog section is a descriptor or, in a malformed catalog, a JSON value
  that is not an object. Such a value has no \<^verbatim>\<open>get\<close>: the string is the message of the
  \<^verbatim>\<open>AttributeError\<close> that \<^verbatim>\<open>source.get('url')\<close> raises on it.
\<close>

datatype source = Dict descriptor | NonDict string

record state_data =
  st_materials :: "source list option"
  st_equipment :: "source list option"
  st_dispensaries :: "source list option"
  st_manufacturers :: "source list option"
  st_legal_status :: "string option"

record national_suppliers =
  nat_materials :: "source list option"
  nat_equipment :: "source list option"
  nat_packaging :: "source list option"
  nat_testing :: "source list option"

text \<open>
  The catalog is the dictionary that \<^verbatim>\<open>json.load\<close> returns. \<^verbatim>\<open>sources_by_state\<close> is
  an association list: Python iterates a dictionary in insertion order.
\<close>

record catalog =
  preferred_sources :: "source list option"
  sources_by_state :: "(string \<times> state_data) list option"
  national_suppliers :: "national_suppliers option"
  consulting_services :: "source list option"
  last_updated :: "string option"

definition empty_catalog :: catalog where
  "empty_catalog = \<lparr>preferred_sources = None, sources_by_state = None,
     national_suppliers = None, consulting_services = None, last_updated = None\<rparr>"

text \<open>
  \<^verbatim>\<open>if d.get(k): acc.extend(d[k])\<close>: an absent key and an empty list are both falsy.
\<close>

definition extend_if :: "'a list \<Rightarrow> 'a list option \<Rightarrow> 'a list" where
  "extend_if acc v = (case v of None \<Rightarrow> acc | Some xs \<Rightarrow> if xs = [] then acc else acc @ xs)"

text \<open>The body of the loop over \<^verbatim>\<open>sources_by_state.items()\<close>.\<close>

definition collect_state :: "source list \<Rightarrow> string \<times> state_data \<Rightarrow> source list" where
  "collect_state acc kv =
     extend_if (extend_if acc (st_materials (snd kv))) (st_equipment (snd kv))"

fun collect_states :: "source list \<Rightarrow> (string \<times> state_data) list \<Rightarrow> source list" where
  "collect_states acc [] = acc"
| "collect_states acc (kv # rest) = collect_states (collect_state acc kv) rest"

text \<open>
  The first part of \<^verbatim>\<open>scrape_all_sources\<close> (lines 277 to 294), which builds
  \<^verbatim>\<open>all_sources\<close>.
\<close>

definition flattenCatalog :: "catalog \<Rightarrow> source list" where
  "flattenCatalog c =
    (let all_sources = extend_if [] (preferred_sources c);
         all_sources = (case sources_by_state c of
                          None \<Rightarrow> all_sources
                        | Some sts \<Rightarrow> if sts = [] then all_sources
                                      else collect_states all_sources sts);
         all_sources = (case national_suppliers c of
                          None \<Rightarrow> all_sources
                        | Some n \<Rightarrow> extend_if (extend_if all_sources (nat_materials n))
                                     (nat_equipment n))
     in all_sources)"

text \<open>
  The order as the specification words it: an absent section counts as empty.
\<close>

definition section_of :: "'a list option \<Rightarrow> 'a list" where
  "section_of v = (case v of None \<Rightarrow> [] | Some xs \<Rightarrow> xs)"

definition flattenCatalog_spec :: "catalog \<Rightarrow> source list" where
  "flattenCatalog_spec c =
     section_of (preferred_sources c)
     @ concat (map (\<lambda>kv. section_of (st_materials (snd kv)) @ section_of (st_equipment (snd kv)))
                   (section_of (sources_by_state c)))
     @ (case national_suppliers c of None \<Rightarrow> []
        | Some n \<Rightarrow> section_of (nat_materials n) @ section_of (nat_equipment n))"

subsection \<open>Strings\<close>

text \<open>\<^verbatim>\<open>s.startswith(p)\<close>.\<close>

definition startswith :: "string \<Rightarrow> string \<Rightarrow> bool" where
  "startswith s p = (take (length p) s = p)"

text \<open>
  \<^verbatim>\<open>str.isspace\<close> on the code points below 256: tab to carriage return, the four
  separators 28 to 31, the space, NEL (133) and the no-break space (160).
\<close>

definition isspace :: "char \<Rightarrow> bool" where
  "isspace c = (let n = (of_char c :: nat) in
     (9 \<le> n \<and> n \<le> 13) \<or> (28 \<le> n \<and> n \<le> 32) \<or> n = 133 \<or> n = 160)"

text \<open>\<^verbatim>\<open>s.strip()\<close>: leading and trailing whitespace removed.\<close>

definition strip :: "string \<Rightarrow> string" where
  "strip s = rev (dropWhile isspace (rev (dropWhile isspace s)))"

text \<open>
  \<^verbatim>\<open>str.lower\<close> on the code points below 256: the ASCII capitals and the Latin-1
  capitals 192 to 222 (the multiplication sign 215 apart) move up by 32.
\<close>

definition lower_char :: "char \<Rightarrow> char" where
  "lower_char c = (let n = (of_char c :: nat) in
     if (65 \<le> n \<and> n \<le> 90) \<or> (192 \<le> n \<and> n \<le> 222 \<and> n \<noteq> 215)
     then char_of (n + 32) else c)"

definition lower :: "string \<Rightarrow> string" where
  "lower s = map lower_char s"

text \<open>
  \<^verbatim>\<open>s.find(sub)\<close>: the lowest index at which \<open>sub\<close> occurs, \<open>None\<close> for Python's
  \<open>-1\<close>. \<^verbatim>\<open>sub in s\<close> is \<open>str_find sub s \<noteq> None\<close>.
\<close>

fun str_find :: "string \<Rightarrow> string \<Rightarrow> nat option" where
  "str_find sub [] = (if sub = [] then Some 0 else None)"
| "str_find sub (c # cs) =
     (if take (length sub) (c # cs) = sub then Some 0
      else map_option Suc (str_find sub cs))"

definition contains :: "string \<Rightarrow> string \<Rightarrow> bool" where
  "contains sub s = (str_find sub s \<noteq> None)"

text \<open>
  \<^verbatim>\<open>any(k in s for k in ks)\<close>; also \<^verbatim>\<open>re.compile('a|b|c').search(s)\<close> for a pattern
  that is an alternation of literal words.
\<close>

definition contains_any :: "string list \<Rightarrow> string \<Rightarrow> bool" where
  "contains_any ks s = list_ex (\<lambda>k. contains k s) ks"

text \<open>
  \<^verbatim>\<open>s.replace(old, new)\<close> for a non-empty \<open>old\<close>: every occurrence, left to right,
  without overlap.
\<close>

function str_replace :: "string \<Rightarrow> string \<Rightarrow> string \<Rightarrow> string" where
  "str_replace old new [] = []"
| "str_replace old new (c # cs) =
     (if old \<noteq> [] \<and> take (length old) (c # cs) = old
      then new @ str_replace old new (drop (length old) (c # cs))
      else c # str_replace old new cs)"
  by pat_completeness auto
termination
  by (relation "measure (\<lambda>(old, new, s). length s)") auto

text \<open>\<^verbatim>\<open>str(n)\<close> for an integer: its decimal digits, with a sign.\<close>

definition digit_char :: "nat \<Rightarrow> char" where
  "digit_char d = char_of (48 + d)"

fun str_nat :: "nat \<Rightarrow> string" where
  "str_nat n = (if n < 10 then [digit_char n] else str_nat (n div 10) @ [digit_char (n mod 10)])"

definition str_int :: "int \<Rightarrow> string" where
  "str_int i = (if i < 0 then CHR ''-'' # str_nat (nat (- i)) else str_nat (nat i))"

subsection \<open>The parsed document\<close>

text \<open>
  What \<^verbatim>\<open>BeautifulSoup(content, 'html.parser')\<close> returns: a tree of tags and strings.
  A tag has a name, its attribute dictionary (one entry per key) and its children; the
  document itself is the root tag. The \<^verbatim>\<open>class\<close> attribute is kept as the string of
  the page. A string is of one of two kinds. \<open>TextNode\<close> is a string of the page text.
  \<open>OtherString\<close> is a string that \<^verbatim>\<open>get_text()\<close> of an enclosing tag leaves out: a
  comment, a declaration, a processing instruction, and the content of a
  \<^verbatim>\<open>script\<close>, \<^verbatim>\<open>style\<close> or \<^verbatim>\<open>template\<close> tag, for which the parser has string
  classes of their own.
\<close>

datatype node = TextNode string | OtherString string
  | Element string "(string \<times> string) list" "node list"

text \<open>
  \<^verbatim>\<open>tag.get_text()\<close>: the strings of the page text below the tag, in document order.
  The scraper calls it on the document and on \<^verbatim>\<open>title\<close>, \<^verbatim>\<open>h1\<close>, \<^verbatim>\<open>h2\<close>,
  \<^verbatim>\<open>h3\<close>, \<^verbatim>\<open>h4\<close>, \<^verbatim>\<open>p\<close>, \<^verbatim>\<open>a\<close> and \<^verbatim>\<open>li\<close> tags, never on a
  \<^verbatim>\<open>script\<close>, \<^verbatim>\<open>style\<close> or \<^verbatim>\<open>template\<close> tag itself.
\<close>

fun get_text :: "node \<Rightarrow> string" where
  "get_text (TextNode s) = s"
| "get_text (OtherString s) = []"
| "get_text (Element name attrs children) = concat (map get_text children)"

text \<open>The tags of a subtree in document order, the root first.\<close>

fun subtree :: "node \<Rightarrow> node list" where
  "subtree (TextNode s) = []"
| "subtree (OtherString s) = []"
| "subtree (Element name attrs children) =
     Element name attrs children # concat (map subtree children)"

text \<open>\<^verbatim>\<open>tag.descendants\<close>, the tags only: the subtree without its root.\<close>

definition descendants :: "node \<Rightarrow> node list" where
  "descendants n = (case n of Element name attrs children \<Rightarrow> concat (map subtree children)
                    | TextNode s \<Rightarrow> [] | OtherString s \<Rightarrow> [])"

definition tag_name :: "node \<Rightarrow> string" where
  "tag_name n = (case n of Element name attrs children \<Rightarrow> name
                 | TextNode s \<Rightarrow> [] | OtherString s \<Rightarrow> [])"

text \<open>\<^verbatim>\<open>tag.get(key)\<close>.\<close>

definition attr :: "node \<Rightarrow> string \<Rightarrow> string option" where
  "attr n key = (case n of Element name attrs children \<Rightarrow> map_of attrs key
                 | TextNode s \<Rightarrow> None | OtherString s \<Rightarrow> None)"

text \<open>
  \<^verbatim>\<open>tag.find_all(names)\<close> and \<^verbatim>\<open>tag.find(names)\<close>, with a filter on the attributes.
\<close>

definition find_all :: "string list \<Rightarrow> (node \<Rightarrow> bool) \<Rightarrow> node \<Rightarrow> node list" where
  "find_all names ok n = filter (\<lambda>e. tag_name e \<in> set names \<and> ok e) (descendants n)"

definition find :: "string list \<Rightarrow> (node \<Rightarrow> bool) \<Rightarrow> node \<Rightarrow> node option" where
  "find names ok n = (case find_all names ok n of [] \<Rightarrow> None | e # rest \<Rightarrow> Some e)"

text \<open>\<^verbatim>\<open>attrs={key: value}\<close>: the attribute is present with exactly this value.\<close>

definition attr_is :: "string \<Rightarrow> string \<Rightarrow> node \<Rightarrow> bool" where
  "attr_is key v e = (attr e key = Some v)"

text \<open>
  \<^verbatim>\<open>class_=re.compile('a|b|c')\<close> and \<^verbatim>\<open>href=re.compile('a|b')\<close>: the attribute is
  present and one of the words occurs in it.
\<close>

definition attr_search :: "string \<Rightarrow> string list \<Rightarrow> node \<Rightarrow> bool" where
  "attr_search key alts e = (case attr e key of None \<Rightarrow> False | Some v \<Rightarrow> contains_any alts v)"

subsection \<open>Extraction heuristics\<close>

text \<open>\<^verbatim>\<open>_extract_title\<close>. A tag that was found is truthy, whatever it holds.\<close>

definition extract_title :: "node \<Rightarrow> string" where
  "extract_title soup =
     (case find [''title''] (\<lambda>e. True) soup of
        Some title_tag \<Rightarrow> strip (get_text title_tag)
      | None \<Rightarrow>
          (case find [''h1''] (\<lambda>e. True) soup of
             Some h1_tag \<Rightarrow> strip (get_text h1_tag)
           | None \<Rightarrow> []))"

text \<open>
  \<^verbatim>\<open>meta and meta.get('content')\<close>: the tag was found and its \<^verbatim>\<open>content\<close> is a
  non-empty string.
\<close>

definition meta_content :: "node option \<Rightarrow> string option" where
  "meta_content m = (case m of None \<Rightarrow> None
     | Some e \<Rightarrow> (case attr e ''content'' of None \<Rightarrow> None
                  | Some v \<Rightarrow> if v = [] then None else Some v))"

text \<open>\<^verbatim>\<open>_extract_description\<close>.\<close>

definition extract_description :: "node \<Rightarrow> string" where
  "extract_description soup =
     (case meta_content (find [''meta''] (attr_is ''name'' ''description'') soup) of
        Some v \<Rightarrow> strip v
      | None \<Rightarrow>
     (case meta_content (find [''meta''] (attr_is ''property'' ''og:description'') soup) of
        Some v \<Rightarrow> strip v
      | None \<Rightarrow>
     (case find [''p''] (\<lambda>e. True) soup of
        None \<Rightarrow> []
      | Some first_p \<Rightarrow>
          (let text = strip (get_text first_p) in
           if length text > 50
           then (if length text > 200 then take 200 text @ ''...'' else text)
           else []))))"

definition product_keywords :: "string list" where
  "product_keywords =
     [''product'', ''products'', ''catalog'', ''shop'', ''store'', ''buy'',
      ''seeds'', ''clones'', ''nutrients'', ''equipment'', ''lighting'',
      ''packaging'', ''containers'', ''supplies'', ''accessories'']"

text \<open>
  The heading of a block: \<^verbatim>\<open>element.find(['h2', 'h3', 'h4'])\<close>, stripped, or nothing.
\<close>

definition block_titles :: "node list \<Rightarrow> string list" where
  "block_titles elements =
     concat (map (\<lambda>element. case find [''h2'', ''h3'', ''h4''] (\<lambda>e. True) element of
                               None \<Rightarrow> [] | Some title \<Rightarrow> [strip (get_text title)])
                 elements)"

text \<open>
  \<^verbatim>\<open>list(set(xs))\<close>: the strings of \<open>xs\<close>, each once, in the order of their slots in
  the hash table of the set. The slot of a string depends on its hash, which the
  interpreter seeds anew in every process, and on the other strings of the table; it is
  a parameter. Strings that share a slot number come in the order of their insertion;
  a string that is already in the set is not inserted again.
\<close>

type_synonym hash_slots = "string list \<Rightarrow> string \<Rightarrow> nat"

definition list_of_set :: "hash_slots \<Rightarrow> string list \<Rightarrow> string list" where
  "list_of_set slot xs = (let table = rev (remdups (rev xs)) in sort_key (slot table) table)"

text \<open>\<^verbatim>\<open>_extract_products\<close>.\<close>

definition extract_products :: "hash_slots \<Rightarrow> node \<Rightarrow> descriptor \<Rightarrow> string list" where
  "extract_products slot soup source =
    (let nav_items = find_all [''a'', ''li''] (attr_search ''class'' [''nav'', ''menu'', ''product'']) soup;
         products = map (\<lambda>item. strip (get_text item))
                      (filter (\<lambda>item. contains_any product_keywords (lower (strip (get_text item))))
                              nav_items);
         product_elements = find_all [''div'', ''section'']
                              (attr_search ''class'' [''product'', ''item'', ''card'']) soup;
         products = products @ block_titles (take 10 product_elements);
         products = extend_if products (d_products source)
     in list_of_set slot products)"

text \<open>
  The regular expressions of \<^verbatim>\<open>_extract_contact_info\<close> (phone, email, address) and of
  \<^verbatim>\<open>_extract_location\<close> (street address with city and ZIP, city and state code, two
  comma-separated words). \<^verbatim>\<open>re.findall\<close> is a parameter: for a pattern and a text it
  gives the matches of the pattern's one group, left to right.
\<close>

datatype pattern = PhonePattern | EmailPattern | AddressPattern
  | StreetCityZipPattern | CityStatePattern | CommaPairPattern

type_synonym findall = "pattern \<Rightarrow> string \<Rightarrow> string list"

record contact_info =
  ci_phone :: "string option"
  ci_email :: "string option"
  ci_address :: "string option"

text \<open>\<^verbatim>\<open>matches[0]\<close> under \<^verbatim>\<open>if matches\<close>.\<close>

definition first_match :: "string list \<Rightarrow> string option" where
  "first_match matches = (case matches of [] \<Rightarrow> None | m # rest \<Rightarrow> Some m)"

text \<open>The body of the loop over the \<^verbatim>\<open>mailto:\<close> and \<^verbatim>\<open>tel:\<close> links.\<close>

definition contact_link :: "contact_info \<Rightarrow> node \<Rightarrow> contact_info" where
  "contact_link info link =
     (let href = (case attr link ''href'' of None \<Rightarrow> [] | Some h \<Rightarrow> h) in
      if startswith href ''mailto:'' then info\<lparr>ci_email := Some (str_replace ''mailto:'' [] href)\<rparr>
      else if startswith href ''tel:'' then info\<lparr>ci_phone := Some (str_replace ''tel:'' [] href)\<rparr>
      else info)"

text \<open>\<^verbatim>\<open>_extract_contact_info\<close>.\<close>

definition extract_contact_info :: "findall \<Rightarrow> node \<Rightarrow> contact_info" where
  "extract_contact_info re_findall soup =
    (let page_text = get_text soup;
         info = \<lparr>ci_phone = first_match (re_findall PhonePattern page_text),
                 ci_email = first_match (re_findall EmailPattern page_text),
                 ci_address = first_match (re_findall AddressPattern page_text)\<rparr>;
         contact_links = find_all [''a''] (attr_search ''href'' [''mailto:'', ''tel:'']) soup
     in foldl contact_link info contact_links)"

text \<open>\<^verbatim>\<open>_extract_location\<close>.\<close>

definition extract_location :: "findall \<Rightarrow> node \<Rightarrow> descriptor \<Rightarrow> string" where
  "extract_location re_findall soup source =
    (let seed = (case d_location source of None \<Rightarrow> [] | Some l \<Rightarrow> l) in
     if seed \<noteq> [] then seed
     else
       (let page_text = get_text soup in
        case first_match (re_findall StreetCityZipPattern page_text) of
          Some m \<Rightarrow> strip m
        | None \<Rightarrow>
       (case first_match (re_findall CityStatePattern page_text) of
          Some m \<Rightarrow> strip m
        | None \<Rightarrow>
       (case first_match (re_findall CommaPairPattern page_text) of
          Some m \<Rightarrow> strip m
        | None \<Rightarrow> []))))"

definition cert_keywords :: "string list" where
  "cert_keywords =
     [''certified'', ''certification'', ''licensed'', ''license'', ''approved'',
      ''omri'', ''organic'', ''usda'', ''fda'', ''iso'', ''gmp'', ''haccp'',
      ''kosher'', ''halal'', ''vegan'', ''gluten-free'']"

text \<open>
  The body of the loop of \<^verbatim>\<open>_extract_certifications\<close>: the context of a keyword that
  occurs in the lower-cased page text, from 50 characters before its first occurrence
  to 50 characters after the start of it (\<^verbatim>\<open>page_text[start:end]\<close>).
\<close>

definition cert_context :: "string \<Rightarrow> string \<Rightarrow> string list" where
  "cert_context page_text keyword =
     (case str_find keyword page_text of
        None \<Rightarrow> []
      | Some index \<Rightarrow>
          (let start = nat (max 0 (int index - 50));
               stop = min (length page_text) (index + 50)
           in [strip (take (stop - start) (drop start page_text))]))"

text \<open>\<^verbatim>\<open>_extract_certifications\<close>.\<close>

definition extract_certifications :: "hash_slots \<Rightarrow> node \<Rightarrow> string list" where
  "extract_certifications slot soup =
    (let page_text = lower (get_text soup)
     in list_of_set slot (concat (map (cert_context page_text) cert_keywords)))"

text \<open>
  \<^verbatim>\<open>_extract_services\<close>. The list \<^verbatim>\<open>service_keywords\<close> of the source is never read.
\<close>

definition extract_services :: "hash_slots \<Rightarrow> node \<Rightarrow> descriptor \<Rightarrow> string list" where
  "extract_services slot soup source =
    (let services = extend_if [] (d_services source);
         service_elements = find_all [''div'', ''section'']
                              (attr_search ''class'' [''service'', ''consulting'', ''support'']) soup;
         services = services @ block_titles service_elements
     in list_of_set slot services)"

subsection \<open>Scraping one source\<close>

text \<open>
  The value under \<^verbatim>\<open>'status'\<close>: the HTTP code of a response that is not 200, or one of
  the words \<^verbatim>\<open>'success'\<close> and \<^verbatim>\<open>'error'\<close>.
\<close>

datatype status_value = StatusCode int | StatusWord string

text \<open>
  A scrape record is a dictionary; a field is \<open>None\<close> when the dictionary has no such
  key.
\<close>

record scrape_record =
  r_url :: "string option"
  r_timestamp :: "string option"
  r_status :: "status_value option"
  r_error :: "string option"
  r_title :: "string option"
  r_description :: "string option"
  r_products :: "string list option"
  r_contact_info :: "contact_info option"
  r_location :: "string option"
  r_certifications :: "string list option"
  r_services :: "string list option"

definition empty_record :: scrape_record where
  "empty_record = \<lparr>r_url = None, r_timestamp = None, r_status = None, r_error = None,
     r_title = None, r_description = None, r_products = None, r_contact_info = None,
     r_location = None, r_certifications = None, r_services = None\<rparr>"

text \<open>
  What the network does for one task. \<^verbatim>\<open>session.get(url)\<close> raises an exception (its
  message is kept) or gives a response with a status; \<^verbatim>\<open>response.text()\<close> raises or
  gives the body. \<^verbatim>\<open>datetime.now().isoformat()\<close> is the reading of the clock.
\<close>

datatype text_outcome = TextRaises string | TextOk string

datatype get_outcome = GetRaises string | Response int text_outcome

record world =
  http_get :: "string \<Rightarrow> get_outcome"
  now_iso :: string

text \<open>
  The libraries and the interpreter of one process: \<^verbatim>\<open>re.findall\<close>, the HTML parser,
  which gives a document or raises, and the slots of the hash tables.
\<close>

record lib =
  re_findall :: findall
  html_parser :: "string \<Rightarrow> string + node"
  hash_slot :: hash_slots

text \<open>The dictionary of the \<^verbatim>\<open>except\<close> branch of \<^verbatim>\<open>scrape_source\<close>.\<close>

definition exception_record :: "world \<Rightarrow> string \<Rightarrow> string \<Rightarrow> scrape_record" where
  "exception_record w url msg =
     empty_record\<lparr>r_url := Some url, r_error := Some msg,
                  r_status := Some (StatusWord ''error''), r_timestamp := Some (now_iso w)\<rparr>"

text \<open>The dictionary \<^verbatim>\<open>scraped_data\<close>.\<close>

definition success_record :: "lib \<Rightarrow> world \<Rightarrow> string \<Rightarrow> node \<Rightarrow> descriptor \<Rightarrow> scrape_record" where
  "success_record L w url soup source =
     \<lparr>r_url = Some url,
      r_timestamp = Some (now_iso w),
      r_status = Some (StatusWord ''success''),
      r_error = None,
      r_title = Some (extract_title soup),
      r_description = Some (extract_description soup),
      r_products = Some (extract_products (hash_slot L) soup source),
      r_contact_info = Some (extract_contact_info (re_findall L) soup),
      r_location = Some (extract_location (re_findall L) soup source),
      r_certifications = Some (extract_certifications (hash_slot L) soup),
      r_services = Some (extract_services (hash_slot L) soup source)\<rparr>"

text \<open>\<^verbatim>\<open>if not url.startswith(('http://', 'https://')): url = 'https://' + url\<close>.\<close>

definition add_protocol :: "string \<Rightarrow> string" where
  "add_protocol url =
     (if startswith url ''http://'' \<or> startswith url ''https://'' then url
      else ''https://'' @ url)"

text \<open>
  \<^verbatim>\<open>scrape_source\<close> on a descriptor. Every call that can raise is inside the
  \<^verbatim>\<open>try\<close>, so every outcome is a dictionary. Creating the session has no failure
  of its own in the model: an exception is met at \<^verbatim>\<open>session.get\<close>, at
  \<^verbatim>\<open>response.text()\<close> or in the parser, when \<^verbatim>\<open>url\<close> already has its protocol.
\<close>

definition scrape_descriptor :: "lib \<Rightarrow> world \<Rightarrow> descriptor \<Rightarrow> scrape_record" where
  "scrape_descriptor L w source =
    (let url = (case d_url source of None \<Rightarrow> [] | Some u \<Rightarrow> u) in
     if url = [] then empty_record\<lparr>r_error := Some ''No URL provided''\<rparr>
     else
       (let url = add_protocol url in
        case http_get w url of
          GetRaises msg \<Rightarrow> exception_record w url msg
        | Response status body \<Rightarrow>
            if status \<noteq> 200
            then empty_record\<lparr>r_url := Some url,
                              r_error := Some (''HTTP '' @ str_int status),
                              r_status := Some (StatusCode status)\<rparr>
            else
              (case body of
                 TextRaises msg \<Rightarrow> exception_record w url msg
               | TextOk content \<Rightarrow>
                   (case html_parser L content of
                      Inl msg \<Rightarrow> exception_record w url msg
                    | Inr soup \<Rightarrow> success_record L w url soup source))))"

text \<open>
  \<^verbatim>\<open>scrape_source\<close> on any entry of a section: \<open>Inl\<close> is an exception that leaves the
  function. \<^verbatim>\<open>source.get('url')\<close> is outside the \<^verbatim>\<open>try\<close>.
\<close>

definition scrape_source :: "lib \<Rightarrow> world \<Rightarrow> source \<Rightarrow> string + scrape_record" where
  "scrape_source L w source =
     (case source of NonDict msg \<Rightarrow> Inl msg
      | Dict d \<Rightarrow> Inr (scrape_descriptor L w d))"

subsection \<open>Scraping all sources\<close>

text \<open>
  An entry of \<^verbatim>\<open>failures\<close>: an error record, or the pair of the source and the message
  of the exception that its task raised.
\<close>

datatype failure = FailedRecord scrape_record | FailedTask source string

record run_report =
  total_sources :: nat
  successful_scrapes :: nat
  failed_scrapes :: nat
  results :: "scrape_record list"
  failures :: "failure list"
  timestamp :: string

text \<open>
  The loop over \<^verbatim>\<open>enumerate(results)\<close>, each result paired with \<^verbatim>\<open>all_sources[i]\<close>.
\<close>

fun process_results :: "(source \<times> (string + scrape_record)) list \<Rightarrow>
    scrape_record list \<times> failure list \<Rightarrow> scrape_record list \<times> failure list" where
  "process_results [] acc = acc"
| "process_results ((source, result) # rest) (successful, failed) =
     process_results rest
       (case result of
          Inl msg \<Rightarrow> (successful, failed @ [FailedTask source msg])
        | Inr r \<Rightarrow>
            if r_status r = Some (StatusWord ''success'')
            then (successful @ [r], failed)
            else (successful, failed @ [FailedRecord r]))"

text \<open>
  The environment of a run: the world that the task of the \<open>i\<close>-th source meets, and the
  clock when the report is built.
\<close>

record env =
  task_world :: "nat \<Rightarrow> world"
  report_time :: string

text \<open>
  \<^verbatim>\<open>asyncio.gather(*tasks, return_exceptions=True)\<close>: one result per task, in the order
  of the tasks, an exception that a task raised in the place of its result. The pause
  \<^verbatim>\<open>asyncio.sleep(1)\<close> of \<^verbatim>\<open>scrape_with_semaphore\<close> changes no value.
\<close>

definition gather :: "lib \<Rightarrow> env \<Rightarrow> source list \<Rightarrow> (string + scrape_record) list" where
  "gather L E all_sources =
     map (\<lambda>(i, source). scrape_source L (task_world E i) source)
         (zip [0..<length all_sources] all_sources)"

text \<open>
  How a call ends: with an exception, never (every task waits for a semaphore that
  nobody releases), or with its value.
\<close>

datatype 'a outcome = Raises string | Hangs | Returns 'a

text \<open>
  \<^verbatim>\<open>scrape_all_sources\<close>. \<^verbatim>\<open>asyncio.Semaphore(n)\<close> raises \<^verbatim>\<open>ValueError\<close> for a negative
  \<open>n\<close>; with \<open>n = 0\<close> no task is ever admitted, and \<^verbatim>\<open>gather\<close> returns only when there
  is no task.
\<close>

definition scrape_all_sources :: "lib \<Rightarrow> env \<Rightarrow> int \<Rightarrow> catalog \<Rightarrow> run_report outcome" where
  "scrape_all_sources L E max_concurrent sources_data =
    (let all_sources = flattenCatalog sources_data in
     if max_concurrent < 0 then Raises ''Semaphore initial value must be >= 0''
     else if max_concurrent = 0 \<and> all_sources \<noteq> [] then Hangs
     else
       (let gathered = gather L E all_sources;
            (successful_scrapes, failed_scrapes) =
               process_results (zip all_sources gathered) ([], [])
        in Returns \<lparr>total_sources = length all_sources,
                     successful_scrapes = length successful_scrapes,
                     failed_scrapes = length failed_scrapes,
                     results = successful_scrapes,
                     failures = failed_scrapes,
                     timestamp = report_time E\<rparr>))"

subsection \<open>Loading the catalog\<close>

text \<open>
  \<^verbatim>\<open>open(path)\<close> raises or gives the text of the file; \<^verbatim>\<open>json.load\<close> raises or gives
  the catalog. Both are parameters.
\<close>

datatype file_outcome = OpenRaises string | FileText string

type_synonym filesystem = "string \<Rightarrow> file_outcome"

type_synonym json_loader = "string \<Rightarrow> string + catalog"

text \<open>\<^verbatim>\<open>_load_sources\<close>: any exception is logged and \<^verbatim>\<open>{}\<close> is returned.\<close>

definition load_sources :: "filesystem \<Rightarrow> json_loader \<Rightarrow> string \<Rightarrow> catalog" where
  "load_sources fs json_load sources_file =
     (case fs sources_file of
        OpenRaises e \<Rightarrow> empty_catalog
      | FileText text \<Rightarrow>
          (case json_load text of
             Inl e \<Rightarrow> empty_catalog
           | Inr data \<Rightarrow> data))"

subsection \<open>A sample run\<close>

text \<open>
  The page of the specification's scenario, the document that the parser makes of it,
  and the catalog of the other scenario: one reachable source and one with an empty URL.
\<close>

definition acme_html :: string where
  \<open>acme_html =
     ''<title>Acme Nutrients</title><meta name="description" content="We sell nutrients.">''\<close>

definition acme_soup :: node where
  "acme_soup = Element ''[document]'' []
     [Element ''title'' [] [TextNode ''Acme Nutrients''],
      Element ''meta'' [(''name'', ''description''), (''content'', ''We sell nutrients.'')] []]"

definition acme_lib :: lib where
  "acme_lib = \<lparr>re_findall = (\<lambda>p text. []),
     html_parser = (\<lambda>content. if content = acme_html then Inr acme_soup
                               else Inl ''unexpected page''),
     hash_slot = (\<lambda>table x. 0)\<rparr>"

definition acme_world :: world where
  "acme_world = \<lparr>http_get = (\<lambda>url. if url = ''https://good.example.com''
                                     then Response 200 (TextOk acme_html)
                                     else GetRaises ''Cannot connect to host''),
     now_iso = ''2024-05-01T10:00:00''\<rparr>"

text \<open>A network where every request times out: the exception has an empty message.\<close>

definition timeout_world :: world where
  "timeout_world = \<lparr>http_get = (\<lambda>url. GetRaises []), now_iso = ''2024-05-01T10:00:30''\<rparr>"

definition not_found_world :: world where
  "not_found_world = \<lparr>http_get = (\<lambda>url. Response 404 (TextOk [])),
     now_iso = ''2024-05-01T10:00:00''\<rparr>"

definition source_of_url :: "string \<Rightarrow> descriptor" where
  "source_of_url u = \<lparr>d_url = Some u, d_name = None, d_products = None,
     d_services = None, d_location = None\<rparr>"

definition scenario_catalog :: catalog where
  "scenario_catalog = empty_catalog\<lparr>preferred_sources :=
     Some [Dict (source_of_url ''good.example.com''), Dict (source_of_url [])]\<rparr>"

definition acme_env :: env where
  "acme_env = \<lparr>task_world = (\<lambda>i. acme_world), report_time = ''2024-05-01T10:00:02''\<rparr>"

text \<open>
  A catalog with every section filled, and two loaders that fail: a missing file and a
  file that is not JSON.
\<close>

definition multi_state_catalog :: catalog where
  "multi_state_catalog =
     \<lparr>preferred_sources = Some [Dict (source_of_url ''p.example.com'')],
      sources_by_state = Some
        [(''colorado'', \<lparr>st_materials = Some [Dict (source_of_url ''co-m.example.com'')],
                         st_equipment = Some [Dict (source_of_url ''co-e.example.com'')],
                         st_dispensaries = Some [Dict (source_of_url ''co-d.example.com'')],
                         st_manufacturers = None, st_legal_status = Some ''legal''\<rparr>),
         (''oregon'', \<lparr>st_materials = Some [Dict (source_of_url ''or-m.example.com'')],
                       st_equipment = None,
                       st_dispensaries = None,
                       st_manufacturers = Some [Dict (source_of_url ''or-f.example.com'')],
                       st_legal_status = None\<rparr>)],
      national_suppliers = Some
        \<lparr>nat_materials = Some [Dict (source_of_url ''n-m.example.com'')],
         nat_equipment = Some [Dict (source_of_url ''n-e.example.com'')],
         nat_packaging = Some [Dict (source_of_url ''n-p.example.com'')],
         nat_testing = Some [Dict (source_of_url ''n-t.example.com'')]\<rparr>,
      consulting_services = Some [Dict (source_of_url ''c.example.com'')],
      last_updated = Some ''2024-04-30''\<rparr>"

definition missing_fs :: filesystem where
  "missing_fs = (\<lambda>path. OpenRaises ''No such file or directory'')"

definition garbled_fs :: filesystem where
  "garbled_fs = (\<lambda>path. FileText ''{not json'')"

definition strict_json :: json_loader where
  "strict_json = (\<lambda>text. if text = ''{}'' then Inr empty_catalog
                          else Inl ''Expecting property name'')"

subsection \<open>The shapes of records and the entries of a report\<close>

text \<open>
  What one gathered result adds to \<^verbatim>\<open>results\<close> and to \<^verbatim>\<open>failures\<close>, and the three
  shapes of a record: with a URL, a timestamp and one of the two status words; the
  record of a response that is not 200; the record of a descriptor without URL.
\<close>

definition success_entry :: "string + scrape_record \<Rightarrow> scrape_record list" where
  "success_entry result =
     (case result of Inl msg \<Rightarrow> []
      | Inr r \<Rightarrow> if r_status r = Some (StatusWord ''success'') then [r] else [])"

definition failure_entry :: "source \<times> (string + scrape_record) \<Rightarrow> failure list" where
  "failure_entry x =
     (case snd x of Inl msg \<Rightarrow> [FailedTask (fst x) msg]
      | Inr r \<Rightarrow> if r_status r = Some (StatusWord ''success'') then [] else [FailedRecord r])"

definition complete_record :: "scrape_record \<Rightarrow> bool" where
  "complete_record r =
     (r_url r \<noteq> None \<and> r_timestamp r \<noteq> None
      \<and> (r_status r = Some (StatusWord ''success'') \<or> r_status r = Some (StatusWord ''error'')))"

definition http_error_record :: "scrape_record \<Rightarrow> bool" where
  "http_error_record r =
     (r_url r \<noteq> None \<and> r_timestamp r = None \<and> r_error r \<noteq> None
      \<and> (case r_status r of Some (StatusCode code) \<Rightarrow> code \<noteq> 200 | _ \<Rightarrow> False))"

definition no_url_record :: scrape_record where
  "no_url_record = empty_record\<lparr>r_error := Some ''No URL provided''\<rparr>"

text \<open>
  A page whose text names two certification keywords, in capitals, and that names two
  more in a script and in a comment.
\<close>

definition cert_soup :: node where
  "cert_soup = Element ''[document]'' []
     [Element ''script'' [] [OtherString ''var certified = true;''],
      Element ''p'' [] [TextNode ''  USDA Organic growers ''],
      OtherString '' licensed '',
      TextNode ''since 1999'']"

text \<open>A page without title and without meta tags: a heading and one paragraph.\<close>

definition plain_soup :: node where
  "plain_soup = Element ''[document]'' []
     [Element ''body'' []
        [Element ''h1'' [] [TextNode ''  Green Supply ''],
         Element ''p'' [] [TextNode ''Wholesale growing media and nutrients for licensed cultivators.'']]]"

text \<open>
  A shop page with a navigation list, a product card, a service section, a paragraph
  that names certifications and a mail link; a descriptor with seed values; the same
  libraries in a process with another hash seed; the same network at a later time.
\<close>

definition shop_html :: string where
  \<open>shop_html = ''<html><head><title>Green Supply</title><script>var certified = 1;</script></head><body><ul><li class="nav-item">Shop Seeds</li><li class="nav-item">About</li></ul><div class="product-card"><h3>Coco Coir</h3></div><section class="services"><h2>Consulting</h2></section><p>USDA Organic.</p><a href="mailto:sales@green.example">Mail us</a></body></html>''\<close>

definition shop_soup :: node where
  "shop_soup = Element ''[document]'' []
     [Element ''html'' []
        [Element ''head'' []
           [Element ''title'' [] [TextNode ''Green Supply''],
            Element ''script'' [] [OtherString ''var certified = 1;'']],
         Element ''body'' []
           [Element ''ul'' []
              [Element ''li'' [(''class'', ''nav-item'')] [TextNode ''Shop Seeds''],
               Element ''li'' [(''class'', ''nav-item'')] [TextNode ''About'']],
            Element ''div'' [(''class'', ''product-card'')]
              [Element ''h3'' [] [TextNode ''Coco Coir'']],
            Element ''section'' [(''class'', ''services'')]
              [Element ''h2'' [] [TextNode ''Consulting'']],
            Element ''p'' [] [TextNode ''USDA Organic.''],
            Element ''a'' [(''href'', ''mailto:sales@green.example'')] [TextNode ''Mail us'']]]]"

definition shop_source :: descriptor where
  "shop_source = \<lparr>d_url = Some ''shop.example.com'', d_name = Some ''Green Supply'',
     d_products = Some [''Seeds'', ''Coco Coir''], d_services = Some [''Delivery''],
     d_location = Some ''Denver, CO''\<rparr>"

definition shop_lib :: lib where
  "shop_lib = \<lparr>re_findall = (\<lambda>p text. []),
     html_parser = (\<lambda>content. if content = shop_html then Inr shop_soup
                               else Inl ''unexpected page''),
     hash_slot = (\<lambda>table x. 0)\<rparr>"

definition reseeded_lib :: lib where
  "reseeded_lib = shop_lib\<lparr>hash_slot := (\<lambda>table x. length x)\<rparr>"

definition shop_world :: world where
  "shop_world = \<lparr>http_get = (\<lambda>url. if url = ''https://shop.example.com''
                                     then Response 200 (TextOk shop_html)
                                     else GetRaises ''Cannot connect to host''),
     now_iso = ''2024-05-01T10:00:00''\<rparr>"

definition later_world :: world where
  "later_world = shop_world\<lparr>now_iso := ''2024-06-15T08:30:00''\<rparr>"

section \<open>Properties\<close>

subsection \<open>Auxiliary facts\<close>

lemma extend_if_section: "extend_if acc v = acc @ section_of v"
  by (simp add: extend_if_def section_of_def split: option.splits)

lemma collect_states_concat:
  "collect_states acc sts =
     acc @ concat (map (\<lambda>kv. section_of (st_materials (snd kv)) @ section_of (st_equipment (snd kv)))
                       sts)"
  by (induction sts arbitrary: acc) (simp_all add: collect_state_def extend_if_section)

lemma process_results_length:
  "process_results xs acc = acc' \<Longrightarrow>
     length (fst acc') + length (snd acc') = length (fst acc) + length (snd acc) + length xs"
  by (induction xs acc arbitrary: acc' rule: process_results.induct)
     (auto split: sum.splits if_splits)

lemma length_gather: "length (gather L E srcs) = length srcs"
  by (simp add: gather_def)

lemma length_scenario: "length (flattenCatalog scenario_catalog) = 2"
  by (simp add: flattenCatalog_def scenario_catalog_def empty_catalog_def extend_if_def)

subsection \<open>The run report\<close>

text \<open>
  C1. Whenever the semaphore admits the tasks (a positive \<^verbatim>\<open>max_concurrent\<close>, or zero
  with nothing to scrape), \<^verbatim>\<open>scrape_all_sources\<close> returns a report for every catalog:
  its \<^verbatim>\<open>total_sources\<close> is the length of the flattened source list, the successful and
  failed counts add up to it, and they are the lengths of \<^verbatim>\<open>results\<close> and
  \<^verbatim>\<open>failures\<close>.
\<close>

theorem run_report_counts:
  assumes "0 < max_concurrent \<or> (max_concurrent = 0 \<and> flattenCatalog c = [])"
  shows "\<exists>r. scrape_all_sources L E max_concurrent c = Returns r
           \<and> total_sources r = length (flattenCatalog c)
           \<and> successful_scrapes r + failed_scrapes r = total_sources r
           \<and> length (results r) = successful_scrapes r
           \<and> length (failures r) = failed_scrapes r"
proof -
  let ?srcs = "flattenCatalog c"
  obtain s f where sf: "process_results (zip ?srcs (gather L E ?srcs)) ([], []) = (s, f)"
    by (cases "process_results (zip ?srcs (gather L E ?srcs)) ([], [])")
  from process_results_length [OF sf]
  have len: "length s + length f = length ?srcs"
    by (simp add: length_gather)
  from assms sf len show ?thesis
    by (auto simp add: scrape_all_sources_def Let_def)
qed

theorem run_report_counts_witness:
  "(0::int) < 2 \<and> (\<exists>r. scrape_all_sources acme_lib acme_env 2 scenario_catalog = Returns r
           \<and> total_sources r = 2
           \<and> successful_scrapes r + failed_scrapes r = 2
           \<and> length (results r) = successful_scrapes r
           \<and> length (failures r) = failed_scrapes r)"
  using run_report_counts [of 2 scenario_catalog acme_lib acme_env] length_scenario by auto

subsection \<open>The order of the flattened catalog\<close>

text \<open>
  C6. The flattened list is the preferred sources, then for each state in catalog order
  its materials followed by its equipment, then the national materials, then the national
  equipment. No other section contributes: replacing the dispensaries, manufacturers and
  legal status of every state, the national packaging and testing lists, the consulting
  services and the metadata leaves the list unchanged.
\<close>

theorem flattenCatalog_order:
  "flattenCatalog c = flattenCatalog_spec c
   \<and> flattenCatalog (c\<lparr>consulting_services := cs, last_updated := lu,
        national_suppliers :=
          map_option (\<lambda>n. n\<lparr>nat_packaging := pk, nat_testing := ts\<rparr>) (national_suppliers c),
        sources_by_state :=
          map_option (map (\<lambda>kv. (fst kv, (snd kv)\<lparr>st_dispensaries := ds (fst kv),
                                      st_manufacturers := ms (fst kv),
                                      st_legal_status := ls (fst kv)\<rparr>)))
                     (sources_by_state c)\<rparr>) = flattenCatalog c"
proof -
  have eq: "\<And>c. flattenCatalog c = flattenCatalog_spec c"
    by (simp add: flattenCatalog_def flattenCatalog_spec_def extend_if_section
        collect_states_concat section_of_def split: option.splits)
  show ?thesis
    by (simp add: eq flattenCatalog_spec_def section_of_def comp_def split: option.splits)
qed

theorem flattenCatalog_order_witness:
  "flattenCatalog multi_state_catalog =
     map (\<lambda>u. Dict (source_of_url u))
       [''p.example.com'', ''co-m.example.com'', ''co-e.example.com'', ''or-m.example.com'',
        ''n-m.example.com'', ''n-e.example.com'']"
  using flattenCatalog_order [of multi_state_catalog]
  by (simp add: flattenCatalog_spec_def multi_state_catalog_def section_of_def)

subsection \<open>Loading the catalog\<close>

lemma flatten_empty: "flattenCatalog empty_catalog = []"
  by (simp add: flattenCatalog_def empty_catalog_def extend_if_def)

text \<open>
  C7. When opening the file or parsing it raises, \<^verbatim>\<open>_load_sources\<close> returns the empty
  catalog instead of raising, and \<^verbatim>\<open>scrape_all_sources\<close> on it (with a semaphore size
  that is not negative) returns a report of zero sources.
\<close>

theorem load_sources_degrades:
  assumes "fs path = OpenRaises e \<or> (\<exists>text. fs path = FileText text \<and> json_load text = Inl e)"
  shows "load_sources fs json_load path = empty_catalog
         \<and> (0 \<le> max_concurrent \<longrightarrow>
              (\<exists>r. scrape_all_sources L E max_concurrent (load_sources fs json_load path) = Returns r
                 \<and> total_sources r = 0 \<and> successful_scrapes r = 0 \<and> failed_scrapes r = 0
                 \<and> results r = [] \<and> failures r = []))"
proof -
  from assms have empty: "load_sources fs json_load path = empty_catalog"
    by (auto simp add: load_sources_def)
  show ?thesis
    by (simp add: empty scrape_all_sources_def flatten_empty gather_def)
qed

theorem load_sources_degrades_witness:
  "load_sources missing_fs strict_json ''sources/sources.json'' = empty_catalog
   \<and> load_sources garbled_fs strict_json ''sources/sources.json'' = empty_catalog
   \<and> (\<exists>r. scrape_all_sources acme_lib acme_env 5
             (load_sources garbled_fs strict_json ''sources/sources.json'') = Returns r
          \<and> total_sources r = 0)"
proof -
  have a: "missing_fs ''sources/sources.json'' = OpenRaises ''No such file or directory''
           \<or> (\<exists>text. missing_fs ''sources/sources.json'' = FileText text
                  \<and> strict_json text = Inl ''No such file or directory'')"
    by (simp add: missing_fs_def)
  have b: "garbled_fs ''sources/sources.json'' = OpenRaises ''Expecting property name''
           \<or> (\<exists>text. garbled_fs ''sources/sources.json'' = FileText text
                  \<and> strict_json text = Inl ''Expecting property name'')"
    by (simp add: garbled_fs_def strict_json_def)
  have c: "(0::int) \<le> 5" by simp
  from load_sources_degrades [of missing_fs "''sources/sources.json''"
         "''No such file or directory''" strict_json 5 acme_lib acme_env]
       load_sources_degrades [of garbled_fs "''sources/sources.json''"
         "''Expecting property name''" strict_json 5 acme_lib acme_env] a b c
  show ?thesis by blast
qed

subsection \<open>Scraping one source\<close>

lemma scrape_descriptor_no_url:
  "d_url d = None \<or> d_url d = Some [] \<Longrightarrow>
     scrape_descriptor L w d = empty_record\<lparr>r_error := Some ''No URL provided''\<rparr>"
  by (auto simp add: scrape_descriptor_def)

lemma scrape_descriptor_raises:
  assumes "d_url d = Some u" "u \<noteq> []"
    and "http_get w (add_protocol u) = GetRaises msg
         \<or> http_get w (add_protocol u) = Response 200 (TextRaises msg)
         \<or> (\<exists>content. http_get w (add_protocol u) = Response 200 (TextOk content)
                \<and> html_parser L content = Inl msg)"
  shows "scrape_descriptor L w d = exception_record w (add_protocol u) msg"
  using assms by (auto simp add: scrape_descriptor_def)

lemma scrape_descriptor_http:
  assumes "d_url d = Some u" "u \<noteq> []" "http_get w (add_protocol u) = Response code body"
    "code \<noteq> 200"
  shows "scrape_descriptor L w d =
     empty_record\<lparr>r_url := Some (add_protocol u), r_error := Some (''HTTP '' @ str_int code),
                  r_status := Some (StatusCode code)\<rparr>"
  using assms by (simp add: scrape_descriptor_def)

lemma scrape_descriptor_success:
  assumes "d_url d = Some u" "u \<noteq> []"
    "http_get w (add_protocol u) = Response 200 (TextOk content)"
    "html_parser L content = Inr soup"
  shows "scrape_descriptor L w d = success_record L w (add_protocol u) soup d"
  using assms by (simp add: scrape_descriptor_def)

lemma exception_record_fields:
  "r_url (exception_record w url msg) = Some url"
  "r_error (exception_record w url msg) = Some msg"
  "r_status (exception_record w url msg) = Some (StatusWord ''error'')"
  "r_timestamp (exception_record w url msg) = Some (now_iso w)"
  by (simp_all add: exception_record_def empty_record_def)

lemma add_protocol_examples:
  "add_protocol ''good.example.com'' = ''https://good.example.com''"
  "add_protocol ''down.example.com'' = ''https://down.example.com''"
  by (simp_all add: add_protocol_def startswith_def)

lemma str_int_404: "str_int 404 = ''404''"
  by code_simp

text \<open>
  C2, as the code has it. \<^verbatim>\<open>scrape_source\<close> returns a record for every descriptor and
  never raises. When the request for its URL raises, the record has the status
  \<^verbatim>\<open>'error'\<close> and its \<^verbatim>\<open>error\<close> field is the message of the exception, whatever
  that message is.
\<close>

theorem scrape_source_error_record:
  "(\<exists>r. scrape_source L w (Dict d) = Inr r)
   \<and> (d_url d = Some u \<and> u \<noteq> [] \<and> http_get w (add_protocol u) = GetRaises msg \<longrightarrow>
        (\<exists>r. scrape_source L w (Dict d) = Inr r
           \<and> r_status r = Some (StatusWord ''error'') \<and> r_error r = Some msg))"
  by (auto simp add: scrape_source_def scrape_descriptor_raises exception_record_fields)

theorem scrape_source_error_record_witness:
  "\<exists>r. scrape_source acme_lib acme_world (Dict (source_of_url ''down.example.com'')) = Inr r
      \<and> r_status r = Some (StatusWord ''error'') \<and> r_error r = Some ''Cannot connect to host''"
proof -
  have "d_url (source_of_url ''down.example.com'') = Some ''down.example.com''
        \<and> ''down.example.com'' \<noteq> []
        \<and> http_get acme_world (add_protocol ''down.example.com'') = GetRaises ''Cannot connect to host''"
    by (simp add: source_of_url_def acme_world_def add_protocol_examples)
  with scrape_source_error_record [of acme_lib acme_world "source_of_url ''down.example.com''"
      "''down.example.com''" "''Cannot connect to host''"]
  show ?thesis by blast
qed

text \<open>
  The \<^verbatim>\<open>error\<close> field need not be non-empty: a request that times out raises an
  exception whose message is the empty string, and the record carries it.
\<close>

theorem scrape_source_empty_error:
  "scrape_source acme_lib timeout_world (Dict (source_of_url ''down.example.com'')) =
     Inr (exception_record timeout_world ''https://down.example.com'' [])
   \<and> r_status (exception_record timeout_world ''https://down.example.com'' []) =
       Some (StatusWord ''error'')
   \<and> r_error (exception_record timeout_world ''https://down.example.com'' []) = Some []"
  by (simp add: scrape_source_def scrape_descriptor_def source_of_url_def timeout_world_def
      add_protocol_examples exception_record_fields)

text \<open>
  C3, as the code has it. A descriptor without a URL gives the error \<^verbatim>\<open>No URL provided\<close>
  and no status; a response that is not 200 gives the error \<^verbatim>\<open>HTTP\<close> followed by the
  code, and the code as status; an exception in the request, in reading the body or in
  the parser gives its message as error, with the status \<^verbatim>\<open>'error'\<close>.
\<close>

theorem error_taxonomy:
  "((d_url d = None \<or> d_url d = Some []) \<longrightarrow>
      (\<exists>r. scrape_source L w (Dict d) = Inr r
         \<and> r_error r = Some ''No URL provided'' \<and> r_status r = None))
   \<and> (d_url d = Some u \<and> u \<noteq> [] \<and> http_get w (add_protocol u) = Response code body
        \<and> code \<noteq> 200 \<longrightarrow>
      (\<exists>r. scrape_source L w (Dict d) = Inr r
         \<and> r_error r = Some (''HTTP '' @ str_int code) \<and> r_status r = Some (StatusCode code)))
   \<and> (d_url d = Some u \<and> u \<noteq> []
        \<and> (http_get w (add_protocol u) = GetRaises msg
           \<or> http_get w (add_protocol u) = Response 200 (TextRaises msg)
           \<or> (\<exists>content. http_get w (add_protocol u) = Response 200 (TextOk content)
                  \<and> html_parser L content = Inl msg)) \<longrightarrow>
      (\<exists>r. scrape_source L w (Dict d) = Inr r
         \<and> r_error r = Some msg \<and> r_status r = Some (StatusWord ''error'')))"
proof (intro conjI impI)
  assume "d_url d = None \<or> d_url d = Some []"
  then show "\<exists>r. scrape_source L w (Dict d) = Inr r
         \<and> r_error r = Some ''No URL provided'' \<and> r_status r = None"
    by (simp add: scrape_source_def scrape_descriptor_no_url empty_record_def)
next
  assume "d_url d = Some u \<and> u \<noteq> [] \<and> http_get w (add_protocol u) = Response code body
        \<and> code \<noteq> 200"
  then show "\<exists>r. scrape_source L w (Dict d) = Inr r
         \<and> r_error r = Some (''HTTP '' @ str_int code) \<and> r_status r = Some (StatusCode code)"
    by (simp add: scrape_source_def scrape_descriptor_http empty_record_def)
next
  assume "d_url d = Some u \<and> u \<noteq> []
        \<and> (http_get w (add_protocol u) = GetRaises msg
           \<or> http_get w (add_protocol u) = Response 200 (TextRaises msg)
           \<or> (\<exists>content. http_get w (add_protocol u) = Response 200 (TextOk content)
                  \<and> html_parser L content = Inl msg))"
  then have "scrape_descriptor L w d = exception_record w (add_protocol u) msg"
    using scrape_descriptor_raises [of d u w msg L] by blast
  then show "\<exists>r. scrape_source L w (Dict d) = Inr r
         \<and> r_error r = Some msg \<and> r_status r = Some (StatusWord ''error'')"
    by (simp add: scrape_source_def exception_record_fields)
qed

theorem error_taxonomy_witness:
  "(\<exists>r. scrape_source acme_lib acme_world (Dict (source_of_url [])) = Inr r
      \<and> r_error r = Some ''No URL provided'' \<and> r_status r = None)
   \<and> (\<exists>r. scrape_source acme_lib not_found_world (Dict (source_of_url ''good.example.com'')) = Inr r
      \<and> r_error r = Some ''HTTP 404'' \<and> r_status r = Some (StatusCode 404))
   \<and> (\<exists>r. scrape_source acme_lib acme_world (Dict (source_of_url ''down.example.com'')) = Inr r
      \<and> r_error r = Some ''Cannot connect to host'' \<and> r_status r = Some (StatusWord ''error''))"
proof -
  have a: "d_url (source_of_url []) = None \<or> d_url (source_of_url []) = Some []"
    by (simp add: source_of_url_def)
  have b: "d_url (source_of_url ''good.example.com'') = Some ''good.example.com''
           \<and> ''good.example.com'' \<noteq> []
           \<and> http_get not_found_world (add_protocol ''good.example.com'') = Response 404 (TextOk [])
           \<and> (404::int) \<noteq> 200"
    by (simp add: source_of_url_def not_found_world_def)
  have c: "d_url (source_of_url ''down.example.com'') = Some ''down.example.com''
           \<and> ''down.example.com'' \<noteq> []
           \<and> (http_get acme_world (add_protocol ''down.example.com'') = GetRaises ''Cannot connect to host''
              \<or> http_get acme_world (add_protocol ''down.example.com'') = Response 200 (TextRaises ''Cannot connect to host'')
              \<or> (\<exists>content. http_get acme_world (add_protocol ''down.example.com'') = Response 200 (TextOk content)
                    \<and> html_parser acme_lib content = Inl ''Cannot connect to host''))"
    by (simp add: source_of_url_def acme_world_def add_protocol_examples)
  have s: "''HTTP '' @ str_int 404 = ''HTTP 404''"
    by (simp add: str_int_404)
  from error_taxonomy [of "source_of_url []" acme_lib acme_world]
  have 1: "\<exists>r. scrape_source acme_lib acme_world (Dict (source_of_url [])) = Inr r
      \<and> r_error r = Some ''No URL provided'' \<and> r_status r = None"
    using a by blast
  from error_taxonomy [of "source_of_url ''good.example.com''" acme_lib not_found_world
      "''good.example.com''" 404 "TextOk []"]
  have 2: "\<exists>r. scrape_source acme_lib not_found_world (Dict (source_of_url ''good.example.com'')) = Inr r
      \<and> r_error r = Some (''HTTP '' @ str_int 404) \<and> r_status r = Some (StatusCode 404)"
    using b by blast
  from error_taxonomy [of "source_of_url ''down.example.com''" acme_lib acme_world
      "''down.example.com''" _ _ "''Cannot connect to host''"]
  have 3: "\<exists>r. scrape_source acme_lib acme_world (Dict (source_of_url ''down.example.com'')) = Inr r
      \<and> r_error r = Some ''Cannot connect to host'' \<and> r_status r = Some (StatusWord ''error'')"
    using c by blast
  from 1 2 3 s show ?thesis by simp
qed

text \<open>
  The record of an exception does have a \<^verbatim>\<open>status\<close> field: the word \<^verbatim>\<open>'error'\<close>.
\<close>

theorem exception_record_has_status:
  "scrape_source acme_lib acme_world (Dict (source_of_url ''down.example.com'')) =
     Inr (exception_record acme_world ''https://down.example.com'' ''Cannot connect to host'')
   \<and> r_status (exception_record acme_world ''https://down.example.com'' ''Cannot connect to host'')
       = Some (StatusWord ''error'')
   \<and> r_status (exception_record acme_world ''https://down.example.com'' ''Cannot connect to host'')
       \<noteq> None"
  by (simp add: scrape_source_def scrape_descriptor_def source_of_url_def acme_world_def
      add_protocol_examples exception_record_fields)

subsection \<open>One record for every source\<close>

lemma entry_simps:
  "success_entry (Inl msg) = []"
  "success_entry (Inr r) = (if r_status r = Some (StatusWord ''success'') then [r] else [])"
  "failure_entry (source, Inl msg) = [FailedTask source msg]"
  "failure_entry (source, Inr r) =
     (if r_status r = Some (StatusWord ''success'') then [] else [FailedRecord r])"
  by (simp_all add: success_entry_def failure_entry_def)

lemma process_results_entries:
  "process_results xs (s, f) =
     (s @ concat (map (\<lambda>x. success_entry (snd x)) xs), f @ concat (map failure_entry xs))"
proof (induction xs arbitrary: s f)
  case Nil
  show ?case by simp
next
  case (Cons x xs)
  obtain source result where x: "x = (source, result)" by (cases x)
  show ?case
    by (cases result) (simp_all add: x Cons.IH entry_simps)
qed

lemma one_entry: "length (success_entry (snd x)) + length (failure_entry x) = 1"
  by (simp add: success_entry_def failure_entry_def split: sum.splits)

lemma scrape_descriptor_shape:
  "complete_record (scrape_descriptor L w d) \<or> http_error_record (scrape_descriptor L w d)
   \<or> scrape_descriptor L w d = no_url_record"
  by (auto simp add: scrape_descriptor_def Let_def complete_record_def http_error_record_def
      no_url_record_def exception_record_def success_record_def empty_record_def
      split: option.splits get_outcome.splits text_outcome.splits sum.splits)

lemma gather_records:
  assumes "Inr r \<in> set (gather L E srcs)"
  shows "\<exists>w d. r = scrape_descriptor L w d"
proof -
  from assms obtain i source where "Inr r = scrape_source L (task_world E i) source"
    by (auto simp add: gather_def)
  then show ?thesis
    by (cases source) (auto simp add: scrape_source_def)
qed

lemma success_entry_rec: "r \<in> set (success_entry g) \<Longrightarrow> g = Inr r \<and> r_status r = Some (StatusWord ''success'')"
  by (auto simp add: success_entry_def split: sum.splits if_splits)

lemma failure_entry_rec: "FailedRecord r \<in> set (failure_entry x) \<Longrightarrow> snd x = Inr r \<and> r_status r \<noteq> Some (StatusWord ''success'')"
  by (auto simp add: failure_entry_def split: sum.splits if_splits)

lemma flatten_scenario:
  "flattenCatalog scenario_catalog =
     [Dict (source_of_url ''good.example.com''), Dict (source_of_url [])]"
  by (simp add: flattenCatalog_def scenario_catalog_def empty_catalog_def extend_if_def)

lemma scrape_scenario:
  "scrape_descriptor acme_lib acme_world (source_of_url ''good.example.com'') =
     success_record acme_lib acme_world ''https://good.example.com'' acme_soup
       (source_of_url ''good.example.com'')"
  "scrape_descriptor acme_lib acme_world (source_of_url []) = no_url_record"
proof -
  have u: "d_url (source_of_url ''good.example.com'') = Some ''good.example.com''"
    by (simp add: source_of_url_def)
  have g: "http_get acme_world (add_protocol ''good.example.com'') = Response 200 (TextOk acme_html)"
    by (simp add: acme_world_def add_protocol_examples)
  have p: "html_parser acme_lib acme_html = Inr acme_soup"
    by (simp add: acme_lib_def)
  from scrape_descriptor_success [OF u _ g p]
  show "scrape_descriptor acme_lib acme_world (source_of_url ''good.example.com'') =
     success_record acme_lib acme_world ''https://good.example.com'' acme_soup
       (source_of_url ''good.example.com'')"
    by (simp add: add_protocol_examples)
  have "d_url (source_of_url []) = None \<or> d_url (source_of_url []) = Some []"
    by (simp add: source_of_url_def)
  from scrape_descriptor_no_url [OF this]
  show "scrape_descriptor acme_lib acme_world (source_of_url []) = no_url_record"
    by (simp add: no_url_record_def)
qed

lemma gather_scenario:
  "gather acme_lib acme_env [Dict (source_of_url ''good.example.com''), Dict (source_of_url [])] =
     [Inr (success_record acme_lib acme_world ''https://good.example.com'' acme_soup
             (source_of_url ''good.example.com'')),
      Inr no_url_record]"
proof -
  have w: "task_world acme_env i = acme_world" for i
    by (simp add: acme_env_def)
  have "[0..<2] = [0, Suc 0]"
    by (simp add: upt_rec)
  then show ?thesis
    by (simp add: gather_def scrape_source_def w scrape_scenario)
qed

lemma record_statuses:
  "r_status (success_record L w url soup d) = Some (StatusWord ''success'')"
  "r_status no_url_record = None"
  by (simp_all add: success_record_def no_url_record_def empty_record_def)

lemma gather_nth:
  "i < length srcs \<Longrightarrow> gather L E srcs ! i = scrape_source L (task_world E i) (srcs ! i)"
  by (simp add: gather_def)

lemma entry_placed:
  assumes "i < length srcs"
  shows "set (success_entry (scrape_source L (task_world E i) (srcs ! i)))
           \<subseteq> set (concat (map (\<lambda>x. success_entry (snd x)) (zip srcs (gather L E srcs))))"
    and "set (failure_entry (srcs ! i, scrape_source L (task_world E i) (srcs ! i)))
           \<subseteq> set (concat (map failure_entry (zip srcs (gather L E srcs))))"
proof -
  let ?x = "(srcs ! i, scrape_source L (task_world E i) (srcs ! i))"
  from assms have "zip srcs (gather L E srcs) ! i = ?x"
    by (simp add: length_gather gather_nth)
  moreover from assms have "i < length (zip srcs (gather L E srcs))"
    by (simp add: length_gather)
  ultimately have "?x \<in> set (zip srcs (gather L E srcs))"
    by (metis nth_mem)
  then show "set (success_entry (scrape_source L (task_world E i) (srcs ! i)))
           \<subseteq> set (concat (map (\<lambda>x. success_entry (snd x)) (zip srcs (gather L E srcs))))"
    and "set (failure_entry ?x) \<subseteq> set (concat (map failure_entry (zip srcs (gather L E srcs))))"
    by force+
qed

lemma record_shapes:
  "complete_record (exception_record w url msg)"
  "complete_record (success_record L w url soup d)"
  "code \<noteq> 200 \<Longrightarrow> http_error_record (empty_record\<lparr>r_url := Some url,
       r_error := Some (''HTTP '' @ str_int code), r_status := Some (StatusCode code)\<rparr>)"
  by (simp_all add: complete_record_def http_error_record_def exception_record_def
      success_record_def empty_record_def)

lemma success_record_fields:
  "r_url (success_record L w url soup d) = Some url"
  "r_timestamp (success_record L w url soup d) = Some (now_iso w)"
  "r_status (success_record L w url soup d) = Some (StatusWord ''success'')"
  "r_error (success_record L w url soup d) = None"
  by (simp_all add: success_record_def)

lemma no_url_record_fields:
  "r_url no_url_record = None" "r_timestamp no_url_record = None"
  "r_status no_url_record = None" "r_error no_url_record = Some ''No URL provided''"
  by (simp_all add: no_url_record_def empty_record_def)

lemma placed_cases:
  assumes i: "i < length srcs"
  shows "srcs ! i = NonDict m \<Longrightarrow>
           FailedTask (NonDict m) m
             \<in> set (concat (map failure_entry (zip srcs (gather L E srcs))))"
    and "srcs ! i = Dict d \<Longrightarrow> r_status (scrape_descriptor L (task_world E i) d)
            = Some (StatusWord ''success'') \<Longrightarrow>
           scrape_descriptor L (task_world E i) d
             \<in> set (concat (map (\<lambda>x. success_entry (snd x)) (zip srcs (gather L E srcs))))"
    and "srcs ! i = Dict d \<Longrightarrow> r_status (scrape_descriptor L (task_world E i) d)
            \<noteq> Some (StatusWord ''success'') \<Longrightarrow>
           FailedRecord (scrape_descriptor L (task_world E i) d)
             \<in> set (concat (map failure_entry (zip srcs (gather L E srcs))))"
  using entry_placed [OF i, of L E]
  by (auto simp add: scrape_source_def entry_simps)

text \<open>
  C4, as the code has it. Every source of the flattened catalog adds exactly one entry
  to the report, to \<^verbatim>\<open>results\<close> or to \<^verbatim>\<open>failures\<close>, so none is dropped, and the
  cause decides the entry. A page that is fetched with the status 200 and parses gives a
  record in \<^verbatim>\<open>results\<close> with the URL, the timestamp and the status
  \<^verbatim>\<open>'success'\<close>. An exception in the request, in reading the body or in the parser
  gives a record in \<^verbatim>\<open>failures\<close> with the URL, the timestamp, the status
  \<^verbatim>\<open>'error'\<close> and the message. A response that is not 200 gives a record in
  \<^verbatim>\<open>failures\<close> with the URL, the error \<^verbatim>\<open>HTTP\<close> and the code, the code as status
  and no timestamp. A descriptor without URL gives the record that has the \<^verbatim>\<open>error\<close>
  field alone. An entry that is not a descriptor gives the pair of the entry and the
  message of its exception.
\<close>

theorem one_record_per_source:
  assumes "0 < max_concurrent"
  shows "\<exists>r. scrape_all_sources L E max_concurrent c = Returns r
     \<and> results r = concat (map (\<lambda>x. success_entry (snd x))
                              (zip (flattenCatalog c) (gather L E (flattenCatalog c))))
     \<and> failures r = concat (map failure_entry
                              (zip (flattenCatalog c) (gather L E (flattenCatalog c))))
     \<and> (\<forall>x \<in> set (zip (flattenCatalog c) (gather L E (flattenCatalog c))).
           length (success_entry (snd x)) + length (failure_entry x) = 1)
     \<and> length (results r) + length (failures r) = length (flattenCatalog c)
     \<and> (\<forall>rec \<in> set (results r). complete_record rec)
     \<and> (\<forall>rec. FailedRecord rec \<in> set (failures r) \<longrightarrow>
           complete_record rec \<or> http_error_record rec \<or> rec = no_url_record)
     \<and> (\<forall>i msg. i < length (flattenCatalog c) \<and> flattenCatalog c ! i = NonDict msg \<longrightarrow>
           FailedTask (NonDict msg) msg \<in> set (failures r))
     \<and> (\<forall>i d. i < length (flattenCatalog c) \<and> flattenCatalog c ! i = Dict d
              \<and> (d_url d = None \<or> d_url d = Some []) \<longrightarrow>
           FailedRecord no_url_record \<in> set (failures r)
           \<and> r_error no_url_record = Some ''No URL provided''
           \<and> r_url no_url_record = None \<and> r_timestamp no_url_record = None
           \<and> r_status no_url_record = None)
     \<and> (\<forall>i d u code body. i < length (flattenCatalog c) \<and> flattenCatalog c ! i = Dict d
              \<and> d_url d = Some u \<and> u \<noteq> []
              \<and> http_get (task_world E i) (add_protocol u) = Response code body
              \<and> code \<noteq> 200 \<longrightarrow>
           (\<exists>rec. FailedRecord rec \<in> set (failures r) \<and> http_error_record rec
              \<and> r_url rec = Some (add_protocol u)
              \<and> r_error rec = Some (''HTTP '' @ str_int code)
              \<and> r_status rec = Some (StatusCode code) \<and> r_timestamp rec = None))
     \<and> (\<forall>i d u msg. i < length (flattenCatalog c) \<and> flattenCatalog c ! i = Dict d
              \<and> d_url d = Some u \<and> u \<noteq> []
              \<and> (http_get (task_world E i) (add_protocol u) = GetRaises msg
                 \<or> http_get (task_world E i) (add_protocol u) = Response 200 (TextRaises msg)
                 \<or> (\<exists>content. http_get (task_world E i) (add_protocol u)
                                  = Response 200 (TextOk content)
                        \<and> html_parser L content = Inl msg)) \<longrightarrow>
           (\<exists>rec. FailedRecord rec \<in> set (failures r) \<and> complete_record rec
              \<and> r_url rec = Some (add_protocol u)
              \<and> r_timestamp rec = Some (now_iso (task_world E i))
              \<and> r_status rec = Some (StatusWord ''error'') \<and> r_error rec = Some msg))
     \<and> (\<forall>i d u content soup. i < length (flattenCatalog c) \<and> flattenCatalog c ! i = Dict d
              \<and> d_url d = Some u \<and> u \<noteq> []
              \<and> http_get (task_world E i) (add_protocol u) = Response 200 (TextOk content)
              \<and> html_parser L content = Inr soup \<longrightarrow>
           (\<exists>rec. rec \<in> set (results r) \<and> complete_record rec
              \<and> rec = success_record L (task_world E i) (add_protocol u) soup d
              \<and> r_url rec = Some (add_protocol u)
              \<and> r_timestamp rec = Some (now_iso (task_world E i))
              \<and> r_status rec = Some (StatusWord ''success'') \<and> r_error rec = None))"
proof -
  let ?srcs = "flattenCatalog c"
  let ?xs = "zip ?srcs (gather L E ?srcs)"
  let ?r = "\<lparr>total_sources = length ?srcs,
             successful_scrapes = length (concat (map (\<lambda>x. success_entry (snd x)) ?xs)),
             failed_scrapes = length (concat (map failure_entry ?xs)),
             results = concat (map (\<lambda>x. success_entry (snd x)) ?xs),
             failures = concat (map failure_entry ?xs),
             timestamp = report_time E\<rparr>"
  have ret: "scrape_all_sources L E max_concurrent c = Returns ?r"
    using assms by (simp add: scrape_all_sources_def Let_def process_results_entries)
  have len: "length (results ?r) + length (failures ?r) = length ?srcs"
    using process_results_length [of ?xs "([], [])" "(results ?r, failures ?r)"]
    by (simp add: process_results_entries length_gather)
  have shape: "complete_record rec \<or> http_error_record rec \<or> rec = no_url_record"
    if "Inr rec \<in> set (gather L E ?srcs)" for rec
    using gather_records [OF that] scrape_descriptor_shape by blast
  have in_gather: "snd x \<in> set (gather L E ?srcs)" if "x \<in> set ?xs" for x
    using that by (metis prod.collapse set_zip_rightD)
  have res: "complete_record rec" if "rec \<in> set (results ?r)" for rec
  proof -
    from that obtain x where x: "x \<in> set ?xs" "rec \<in> set (success_entry (snd x))"
      by auto
    from success_entry_rec [OF x(2)] in_gather [OF x(1)]
    have "Inr rec \<in> set (gather L E ?srcs)" "r_status rec = Some (StatusWord ''success'')"
      by simp_all
    with shape [of rec] show ?thesis
      by (auto simp add: http_error_record_def no_url_record_def empty_record_def)
  qed
  have fail: "complete_record rec \<or> http_error_record rec \<or> rec = no_url_record"
    if "FailedRecord rec \<in> set (failures ?r)" for rec
  proof -
    from that obtain x where x: "x \<in> set ?xs" "FailedRecord rec \<in> set (failure_entry x)"
      by auto
    from failure_entry_rec [OF x(2)] in_gather [OF x(1)]
    have "Inr rec \<in> set (gather L E ?srcs)" by simp
    then show ?thesis by (rule shape)
  qed
  have task: "FailedTask (NonDict msg) msg \<in> set (failures ?r)"
    if "i < length ?srcs" "?srcs ! i = NonDict msg" for i msg
    using placed_cases(1) [OF that] by simp
  have nourl: "FailedRecord no_url_record \<in> set (failures ?r)"
    if "i < length ?srcs" "?srcs ! i = Dict d" "d_url d = None \<or> d_url d = Some []" for i d
  proof -
    from scrape_descriptor_no_url [OF that(3)]
    have eq: "scrape_descriptor L (task_world E i) d = no_url_record"
      by (simp add: no_url_record_def)
    with placed_cases(3) [OF that(1,2), of L E] show ?thesis
      by (simp add: no_url_record_fields)
  qed
  have http: "\<exists>rec. FailedRecord rec \<in> set (failures ?r) \<and> http_error_record rec
              \<and> r_url rec = Some (add_protocol u)
              \<and> r_error rec = Some (''HTTP '' @ str_int code)
              \<and> r_status rec = Some (StatusCode code) \<and> r_timestamp rec = None"
    if "i < length ?srcs" "?srcs ! i = Dict d" "d_url d = Some u" "u \<noteq> []"
      "http_get (task_world E i) (add_protocol u) = Response code body" "code \<noteq> 200"
    for i d u code body
  proof -
    let ?rec = "empty_record\<lparr>r_url := Some (add_protocol u),
       r_error := Some (''HTTP '' @ str_int code), r_status := Some (StatusCode code)\<rparr>"
    from scrape_descriptor_http [OF that(3-6)]
    have eq: "scrape_descriptor L (task_world E i) d = ?rec" .
    with placed_cases(3) [OF that(1,2), of L E]
    have "FailedRecord ?rec \<in> set (failures ?r)"
      by (simp add: empty_record_def)
    moreover have "http_error_record ?rec"
      by (rule record_shapes(3) [OF that(6)])
    ultimately show ?thesis
      by (intro exI [of _ ?rec]) (simp add: empty_record_def)
  qed
  have exc: "\<exists>rec. FailedRecord rec \<in> set (failures ?r) \<and> complete_record rec
              \<and> r_url rec = Some (add_protocol u)
              \<and> r_timestamp rec = Some (now_iso (task_world E i))
              \<and> r_status rec = Some (StatusWord ''error'') \<and> r_error rec = Some msg"
    if "i < length ?srcs" "?srcs ! i = Dict d" "d_url d = Some u" "u \<noteq> []"
      "http_get (task_world E i) (add_protocol u) = GetRaises msg
       \<or> http_get (task_world E i) (add_protocol u) = Response 200 (TextRaises msg)
       \<or> (\<exists>content. http_get (task_world E i) (add_protocol u) = Response 200 (TextOk content)
              \<and> html_parser L content = Inl msg)"
    for i d u msg
  proof -
    let ?rec = "exception_record (task_world E i) (add_protocol u) msg"
    from scrape_descriptor_raises [OF that(3-5)]
    have eq: "scrape_descriptor L (task_world E i) d = ?rec" .
    with placed_cases(3) [OF that(1,2), of L E]
    have "FailedRecord ?rec \<in> set (failures ?r)"
      by (simp add: exception_record_fields)
    then show ?thesis
      by (intro exI [of _ ?rec]) (simp add: exception_record_fields record_shapes)
  qed
  have suc: "\<exists>rec. rec \<in> set (results ?r) \<and> complete_record rec
              \<and> rec = success_record L (task_world E i) (add_protocol u) soup d
              \<and> r_url rec = Some (add_protocol u)
              \<and> r_timestamp rec = Some (now_iso (task_world E i))
              \<and> r_status rec = Some (StatusWord ''success'') \<and> r_error rec = None"
    if "i < length ?srcs" "?srcs ! i = Dict d" "d_url d = Some u" "u \<noteq> []"
      "http_get (task_world E i) (add_protocol u) = Response 200 (TextOk content)"
      "html_parser L content = Inr soup"
    for i d u content soup
  proof -
    let ?rec = "success_record L (task_world E i) (add_protocol u) soup d"
    from scrape_descriptor_success [OF that(3-6)]
    have eq: "scrape_descriptor L (task_world E i) d = ?rec" .
    with placed_cases(2) [OF that(1,2), of L E]
    have "?rec \<in> set (results ?r)"
      by (simp add: success_record_fields)
    then show ?thesis
      by (intro exI [of _ ?rec]) (simp add: success_record_fields record_shapes)
  qed
  have old: "results ?r = concat (map (\<lambda>x. success_entry (snd x)) ?xs)
     \<and> failures ?r = concat (map failure_entry ?xs)
     \<and> (\<forall>x \<in> set ?xs. length (success_entry (snd x)) + length (failure_entry x) = 1)
     \<and> length (results ?r) + length (failures ?r) = length ?srcs
     \<and> (\<forall>rec \<in> set (results ?r). complete_record rec)
     \<and> (\<forall>rec. FailedRecord rec \<in> set (failures ?r) \<longrightarrow>
           complete_record rec \<or> http_error_record rec \<or> rec = no_url_record)"
    using len res fail one_entry by simp
  show ?thesis
    apply (rule exI [of _ ?r])
    apply (intro conjI ret old [THEN conjunct1] old [THEN conjunct2, THEN conjunct1]
        old [THEN conjunct2, THEN conjunct2, THEN conjunct1]
        old [THEN conjunct2, THEN conjunct2, THEN conjunct2, THEN conjunct1]
        old [THEN conjunct2, THEN conjunct2, THEN conjunct2, THEN conjunct2, THEN conjunct1]
        old [THEN conjunct2, THEN conjunct2, THEN conjunct2, THEN conjunct2, THEN conjunct2])
    subgoal using task by blast
    subgoal using nourl no_url_record_fields by blast
    subgoal using http by blast
    subgoal using exc by blast
    subgoal using suc by blast
    done
qed

theorem one_record_per_source_witness:
  "(0::int) < 2
   \<and> (\<exists>r. scrape_all_sources acme_lib acme_env 2 scenario_catalog = Returns r
        \<and> results r = [success_record acme_lib acme_world ''https://good.example.com'' acme_soup
                          (source_of_url ''good.example.com'')]
        \<and> failures r = [FailedRecord no_url_record]
        \<and> length (results r) + length (failures r) = 2
        \<and> (\<forall>rec \<in> set (results r). complete_record rec)
        \<and> FailedRecord no_url_record \<in> set (failures r))"
proof -
  have pos: "(0::int) < 2" by simp
  from one_record_per_source [OF pos, of acme_lib acme_env scenario_catalog]
  obtain r where ret: "scrape_all_sources acme_lib acme_env 2 scenario_catalog = Returns r"
    and res: "results r = concat (map (\<lambda>x. success_entry (snd x))
                (zip (flattenCatalog scenario_catalog)
                     (gather acme_lib acme_env (flattenCatalog scenario_catalog))))"
    and fls: "failures r = concat (map failure_entry
                (zip (flattenCatalog scenario_catalog)
                     (gather acme_lib acme_env (flattenCatalog scenario_catalog))))"
    and len: "length (results r) + length (failures r) = length (flattenCatalog scenario_catalog)"
    and cmp: "\<forall>rec \<in> set (results r). complete_record rec"
    and nourl: "\<forall>i d. i < length (flattenCatalog scenario_catalog)
              \<and> flattenCatalog scenario_catalog ! i = Dict d
              \<and> (d_url d = None \<or> d_url d = Some []) \<longrightarrow>
           FailedRecord no_url_record \<in> set (failures r)
           \<and> r_error no_url_record = Some ''No URL provided''
           \<and> r_url no_url_record = None \<and> r_timestamp no_url_record = None
           \<and> r_status no_url_record = None"
    apply (elim exE conjE)
    apply (rule that)
    apply assumption+
    done
  have res': "results r = [success_record acme_lib acme_world ''https://good.example.com''
                             acme_soup (source_of_url ''good.example.com'')]"
    by (simp add: res gather_scenario flatten_scenario entry_simps record_statuses)
  have fls': "failures r = [FailedRecord no_url_record]"
    by (simp add: fls gather_scenario flatten_scenario entry_simps record_statuses)
  have len': "length (results r) + length (failures r) = 2"
    using len by (simp add: length_scenario)
  have "1 < length (flattenCatalog scenario_catalog)
        \<and> flattenCatalog scenario_catalog ! 1 = Dict (source_of_url [])
        \<and> (d_url (source_of_url []) = None \<or> d_url (source_of_url []) = Some [])"
    by (simp add: flatten_scenario source_of_url_def)
  with nourl have placed: "FailedRecord no_url_record \<in> set (failures r)"
    by blast
  from pos ret res' fls' len' cmp placed show ?thesis
    by blast
qed

text \<open>
  A response with the status 404 gives a record without timestamp whose status is the
  number 404, and a descriptor with an empty URL gives a record without URL, timestamp
  and status.
\<close>

theorem http_error_record_incomplete:
  "scrape_source acme_lib not_found_world (Dict (source_of_url ''good.example.com'')) =
     Inr (empty_record\<lparr>r_url := Some ''https://good.example.com'',
                        r_error := Some ''HTTP 404'', r_status := Some (StatusCode 404)\<rparr>)
   \<and> r_timestamp (empty_record\<lparr>r_url := Some ''https://good.example.com'',
                        r_error := Some ''HTTP 404'', r_status := Some (StatusCode 404)\<rparr>) = None
   \<and> r_status (empty_record\<lparr>r_url := Some ''https://good.example.com'',
                        r_error := Some ''HTTP 404'', r_status := Some (StatusCode 404)\<rparr>)
       = Some (StatusCode 404)
   \<and> scrape_source acme_lib acme_world (Dict (source_of_url [])) = Inr no_url_record
   \<and> r_url no_url_record = None \<and> r_timestamp no_url_record = None
   \<and> r_status no_url_record = None"
proof -
  have u: "d_url (source_of_url ''good.example.com'') = Some ''good.example.com''"
    by (simp add: source_of_url_def)
  have g: "http_get not_found_world (add_protocol ''good.example.com'') = Response 404 (TextOk [])"
    by (simp add: not_found_world_def)
  from scrape_descriptor_http [OF u _ g, of acme_lib]
  have "scrape_descriptor acme_lib not_found_world (source_of_url ''good.example.com'') =
     empty_record\<lparr>r_url := Some ''https://good.example.com'',
                  r_error := Some ''HTTP 404'', r_status := Some (StatusCode 404)\<rparr>"
    by (simp add: add_protocol_examples str_int_404)
  then show ?thesis
    by (simp add: scrape_source_def scrape_scenario)
       (simp add: no_url_record_def empty_record_def)
qed

subsection \<open>Certification snippets\<close>

lemma lower_char_idem: "lower_char (lower_char c) = lower_char c"
  by (auto simp add: lower_char_def Let_def)

lemma lower_fixed_iff: "lower s = s \<longleftrightarrow> (\<forall>c \<in> set s. lower_char c = c)"
  by (induction s) (auto simp add: lower_def)

lemma lower_lower: "lower (lower s) = lower s"
  by (simp add: lower_def lower_char_idem)

lemma set_strip: "set (strip s) \<subseteq> set s"
  by (auto simp add: strip_def dest!: set_dropWhileD)

lemma length_strip: "length (strip s) \<le> length s"
proof -
  have "length (strip s) \<le> length (dropWhile isspace s)"
    using length_dropWhile_le [of isspace "rev (dropWhile isspace s)"]
    by (simp add: strip_def)
  also have "\<dots> \<le> length s"
    by (rule length_dropWhile_le)
  finally show ?thesis .
qed

lemma lower_strip: "lower s = s \<Longrightarrow> lower (strip s) = strip s"
  using set_strip [of s] by (auto simp add: lower_fixed_iff)

lemma lower_slice: "lower s = s \<Longrightarrow> lower (take n (drop k s)) = take n (drop k s)"
  by (auto simp add: lower_fixed_iff dest: in_set_takeD in_set_dropD)

lemma window_start: "nat (max 0 (int index - 50)) = index - 50"
  by arith

lemma cert_context_cases:
  assumes "s \<in> set (cert_context page_text keyword)"
  shows "\<exists>index. str_find keyword page_text = Some index
       \<and> s = strip (take (min (length page_text) (index + 50) - (index - 50))
                         (drop (index - 50) page_text))"
proof (cases "str_find keyword page_text")
  case None
  with assms show ?thesis by (simp add: cert_context_def)
next
  case (Some index)
  with assms show ?thesis by (simp add: cert_context_def Let_def window_start)
qed

lemma set_list_of_set: "set (list_of_set slot xs) = set xs"
  by (simp add: list_of_set_def Let_def)

lemma distinct_list_of_set: "distinct (list_of_set slot xs)"
  by (simp add: list_of_set_def Let_def)

lemma cert_soup_value:
  "extract_certifications (\<lambda>table x. 0) cert_soup = [''usda organic growers since 1999'']"
  by code_simp

text \<open>
  C10. Every snippet that \<^verbatim>\<open>_extract_certifications\<close> returns has at most 100
  characters and is in lower case (lowering it again changes nothing): it is the
  stripped slice of the lower-cased page text that starts 50 characters before the first
  occurrence of a keyword and ends 50 characters after the start of it.
\<close>

theorem certifications_lower_case:
  assumes "s \<in> set (extract_certifications slot soup)"
  shows "length s \<le> 100 \<and> lower s = s
     \<and> (\<exists>keyword \<in> set cert_keywords. \<exists>index.
           str_find keyword (lower (get_text soup)) = Some index
           \<and> s = strip (take (min (length (lower (get_text soup))) (index + 50) - (index - 50))
                             (drop (index - 50) (lower (get_text soup)))))"
proof -
  let ?text = "lower (get_text soup)"
  from assms obtain keyword where kw: "keyword \<in> set cert_keywords"
    and s: "s \<in> set (cert_context ?text keyword)"
    by (auto simp add: extract_certifications_def set_list_of_set)
  from cert_context_cases [OF s] obtain index where
    idx: "str_find keyword ?text = Some index"
    and eq: "s = strip (take (min (length ?text) (index + 50) - (index - 50))
                             (drop (index - 50) ?text))"
    by blast
  have "length s \<le> min (length ?text) (index + 50) - (index - 50)"
    unfolding eq by (rule order_trans [OF length_strip]) simp
  then have short: "length s \<le> 100" by simp
  have low: "lower s = s"
    unfolding eq by (intro lower_strip lower_slice lower_lower)
  from kw idx eq short low show ?thesis
    by blast
qed

theorem certifications_lower_case_witness:
  "''usda organic growers since 1999'' \<in> set (extract_certifications (\<lambda>table x. 0) cert_soup)
   \<and> length ''usda organic growers since 1999'' \<le> 100
   \<and> lower ''usda organic growers since 1999'' = ''usda organic growers since 1999''"
proof -
  have m: "''usda organic growers since 1999''
             \<in> set (extract_certifications (\<lambda>table x. 0) cert_soup)"
    by (simp add: cert_soup_value)
  from certifications_lower_case [OF m] m show ?thesis by blast
qed

subsection \<open>Title and description\<close>

text \<open>\<^verbatim>\<open>find\<close> gives the first matching tag in document order.\<close>

lemma find_first:
  "find names ok soup = Some e \<longleftrightarrow>
     (\<exists>before after. descendants soup = before @ e # after
        \<and> tag_name e \<in> set names \<and> ok e
        \<and> (\<forall>x \<in> set before. \<not> (tag_name x \<in> set names \<and> ok x)))"
proof
  assume "find names ok soup = Some e"
  then obtain rest where "filter (\<lambda>e. tag_name e \<in> set names \<and> ok e) (descendants soup) = e # rest"
    by (auto simp add: find_def find_all_def split: list.splits)
  then show "\<exists>before after. descendants soup = before @ e # after
        \<and> tag_name e \<in> set names \<and> ok e
        \<and> (\<forall>x \<in> set before. \<not> (tag_name x \<in> set names \<and> ok x))"
    unfolding filter_eq_Cons_iff by blast
next
  assume "\<exists>before after. descendants soup = before @ e # after
        \<and> tag_name e \<in> set names \<and> ok e
        \<and> (\<forall>x \<in> set before. \<not> (tag_name x \<in> set names \<and> ok x))"
  then obtain before after where d: "descendants soup = before @ e # after"
    and e: "tag_name e \<in> set names \<and> ok e"
    and b: "\<forall>x \<in> set before. \<not> (tag_name x \<in> set names \<and> ok x)"
    by blast
  from b have "filter (\<lambda>e. tag_name e \<in> set names \<and> ok e) before = []"
    by (simp add: filter_empty_conv)
  with d e show "find names ok soup = Some e"
    by (simp add: find_def find_all_def)
qed

lemma plain_soup_finds:
  "find [''title''] (\<lambda>e. True) plain_soup = None"
  "find [''h1''] (\<lambda>e. True) plain_soup = Some (Element ''h1'' [] [TextNode ''  Green Supply ''])"
  "meta_content (find [''meta''] (attr_is ''name'' ''description'') plain_soup) = None"
  "meta_content (find [''meta''] (attr_is ''property'' ''og:description'') plain_soup) = None"
  "find [''p''] (\<lambda>e. True) plain_soup = Some (Element ''p'' []
      [TextNode ''Wholesale growing media and nutrients for licensed cultivators.''])"
  by (simp_all add: plain_soup_def find_def find_all_def descendants_def tag_name_def
      meta_content_def)

lemma plain_soup_texts:
  "strip ''  Green Supply '' = ''Green Supply''"
  "strip ''Wholesale growing media and nutrients for licensed cultivators.'' =
     ''Wholesale growing media and nutrients for licensed cultivators.''"
  by (simp_all add: strip_def isspace_def)

text \<open>
  C8. The title is the stripped text of the first \<^verbatim>\<open>title\<close> tag, else of the first
  \<^verbatim>\<open>h1\<close> tag, else empty. The description is the stripped \<^verbatim>\<open>content\<close> of the meta
  description, else of the Open Graph description, else the stripped text of the first
  paragraph when it has more than 50 characters (its first 200 characters and an
  ellipsis when it has more than 200), else empty. On the document of the page
  \<^verbatim>\<open>acme_html\<close> the title is \<^verbatim>\<open>Acme Nutrients\<close> and the description is
  \<^verbatim>\<open>We sell nutrients.\<close>
\<close>

theorem title_and_description:
  "(find [''title''] (\<lambda>e. True) soup = Some title_tag \<longrightarrow>
      extract_title soup = strip (get_text title_tag))
   \<and> (find [''title''] (\<lambda>e. True) soup = None \<and> find [''h1''] (\<lambda>e. True) soup = Some h1_tag \<longrightarrow>
      extract_title soup = strip (get_text h1_tag))
   \<and> (find [''title''] (\<lambda>e. True) soup = None \<and> find [''h1''] (\<lambda>e. True) soup = None \<longrightarrow>
      extract_title soup = [])
   \<and> (meta_content (find [''meta''] (attr_is ''name'' ''description'') soup) = Some v \<longrightarrow>
      extract_description soup = strip v)
   \<and> (meta_content (find [''meta''] (attr_is ''name'' ''description'') soup) = None
      \<and> meta_content (find [''meta''] (attr_is ''property'' ''og:description'') soup) = Some v \<longrightarrow>
      extract_description soup = strip v)
   \<and> (meta_content (find [''meta''] (attr_is ''name'' ''description'') soup) = None
      \<and> meta_content (find [''meta''] (attr_is ''property'' ''og:description'') soup) = None
      \<and> find [''p''] (\<lambda>e. True) soup = Some first_p
      \<and> 50 < length (strip (get_text first_p)) \<longrightarrow>
      extract_description soup =
        (if 200 < length (strip (get_text first_p))
         then take 200 (strip (get_text first_p)) @ ''...''
         else strip (get_text first_p)))
   \<and> (meta_content (find [''meta''] (attr_is ''name'' ''description'') soup) = None
      \<and> meta_content (find [''meta''] (attr_is ''property'' ''og:description'') soup) = None
      \<and> (find [''p''] (\<lambda>e. True) soup = None
         \<or> (find [''p''] (\<lambda>e. True) soup = Some first_p
            \<and> length (strip (get_text first_p)) \<le> 50)) \<longrightarrow>
      extract_description soup = [])
   \<and> extract_title acme_soup = ''Acme Nutrients''
   \<and> extract_description acme_soup = ''We sell nutrients.''"
proof -
  have title: "extract_title acme_soup = ''Acme Nutrients''"
    by code_simp
  have description: "extract_description acme_soup = ''We sell nutrients.''"
    by code_simp
  show ?thesis
    by (intro conjI impI title description)
       (auto simp add: extract_title_def extract_description_def Let_def)
qed

theorem title_and_description_witness:
  "find [''title''] (\<lambda>e. True) plain_soup = None
   \<and> extract_title plain_soup = ''Green Supply''
   \<and> extract_description plain_soup =
       ''Wholesale growing media and nutrients for licensed cultivators.''"
  using title_and_description [of plain_soup _ "Element ''h1'' [] [TextNode ''  Green Supply '']" _
      "Element ''p'' [] [TextNode ''Wholesale growing media and nutrients for licensed cultivators.'']"]
  by (simp add: plain_soup_finds plain_soup_texts)

subsection \<open>What extraction depends on\<close>

lemma shop_products:
  "extract_products (\<lambda>table x. 0) shop_soup shop_source = [''Shop Seeds'', ''Coco Coir'', ''Seeds'']"
  "extract_products (\<lambda>table x. length x) shop_soup shop_source =
     [''Seeds'', ''Coco Coir'', ''Shop Seeds'']"
  by code_simp+

lemma shop_title: "extract_title shop_soup = ''Green Supply''"
  by code_simp

lemma shop_scrapes:
  "scrape_source shop_lib shop_world (Dict shop_source) =
     Inr (success_record shop_lib shop_world ''https://shop.example.com'' shop_soup shop_source)"
  "scrape_source reseeded_lib shop_world (Dict shop_source) =
     Inr (success_record reseeded_lib shop_world ''https://shop.example.com'' shop_soup shop_source)"
  "scrape_source reseeded_lib later_world (Dict shop_source) =
     Inr (success_record reseeded_lib later_world ''https://shop.example.com'' shop_soup shop_source)"
proof -
  have u: "d_url shop_source = Some ''shop.example.com''" "''shop.example.com'' \<noteq> []"
    by (simp_all add: shop_source_def)
  have a: "add_protocol ''shop.example.com'' = ''https://shop.example.com''"
    by (simp add: add_protocol_def startswith_def)
  have g1: "http_get shop_world (add_protocol ''shop.example.com'') = Response 200 (TextOk shop_html)"
    by (simp add: shop_world_def a)
  have g2: "http_get later_world (add_protocol ''shop.example.com'') = Response 200 (TextOk shop_html)"
    by (simp add: later_world_def shop_world_def a)
  have p1: "html_parser shop_lib shop_html = Inr shop_soup"
    by (simp add: shop_lib_def)
  have p2: "html_parser reseeded_lib shop_html = Inr shop_soup"
    by (simp add: reseeded_lib_def shop_lib_def)
  show "scrape_source shop_lib shop_world (Dict shop_source) =
     Inr (success_record shop_lib shop_world ''https://shop.example.com'' shop_soup shop_source)"
    using scrape_descriptor_success [OF u g1 p1] by (simp add: scrape_source_def a)
  show "scrape_source reseeded_lib shop_world (Dict shop_source) =
     Inr (success_record reseeded_lib shop_world ''https://shop.example.com'' shop_soup shop_source)"
    using scrape_descriptor_success [OF u g1 p2] by (simp add: scrape_source_def a)
  show "scrape_source reseeded_lib later_world (Dict shop_source) =
     Inr (success_record reseeded_lib later_world ''https://shop.example.com'' shop_soup shop_source)"
    using scrape_descriptor_success [OF u g2 p2] by (simp add: scrape_source_def a)
qed

text \<open>
  C9, as the code has it. Two runs of \<^verbatim>\<open>scrape_source\<close> on the same descriptor that
  fetch the same page (status 200, the same body) with the same parser and regular
  expressions give the same title, description, contact information and location.
  Their products, certifications and services hold the same strings, each once, in an
  order that the hash seed of the process fixes. When both runs have the same hash seed
  the two records differ in the timestamp only. When the page parses, every field is the
  value of its extraction heuristic on the document and the descriptor.
\<close>

theorem extraction_up_to_hash_order:
  assumes "d_url d = Some u" and "u \<noteq> []"
    and "http_get w1 (add_protocol u) = Response 200 (TextOk html)"
    and "http_get w2 (add_protocol u) = Response 200 (TextOk html)"
    and "re_findall L1 = re_findall L2" and "html_parser L1 = html_parser L2"
    and "scrape_source L1 w1 (Dict d) = Inr r1"
    and "scrape_source L2 w2 (Dict d) = Inr r2"
  shows "r_title r1 = r_title r2 \<and> r_description r1 = r_description r2
     \<and> r_contact_info r1 = r_contact_info r2 \<and> r_location r1 = r_location r2
     \<and> map_option set (r_products r1) = map_option set (r_products r2)
     \<and> map_option set (r_certifications r1) = map_option set (r_certifications r2)
     \<and> map_option set (r_services r1) = map_option set (r_services r2)
     \<and> (\<forall>xs. r_products r1 = Some xs \<or> r_certifications r1 = Some xs
              \<or> r_services r1 = Some xs \<longrightarrow> distinct xs)
     \<and> (hash_slot L1 = hash_slot L2 \<longrightarrow> r1 = r2\<lparr>r_timestamp := Some (now_iso w1)\<rparr>)
     \<and> (\<forall>soup. html_parser L1 html = Inr soup \<longrightarrow>
           r_status r1 = Some (StatusWord ''success'')
           \<and> r_title r1 = Some (extract_title soup)
           \<and> r_description r1 = Some (extract_description soup)
           \<and> r_products r1 = Some (extract_products (hash_slot L1) soup d)
           \<and> r_contact_info r1 = Some (extract_contact_info (re_findall L1) soup)
           \<and> r_location r1 = Some (extract_location (re_findall L1) soup d)
           \<and> r_certifications r1 = Some (extract_certifications (hash_slot L1) soup)
           \<and> r_services r1 = Some (extract_services (hash_slot L1) soup d))"
proof (cases "html_parser L1 html")
  case (Inl msg)
  with assms have "r1 = exception_record w1 (add_protocol u) msg"
    and "r2 = exception_record w2 (add_protocol u) msg"
    by (simp_all add: scrape_source_def scrape_descriptor_def)
  with Inl show ?thesis
    by (simp add: exception_record_def empty_record_def)
next
  case (Inr soup)
  with assms have r1: "r1 = success_record L1 w1 (add_protocol u) soup d"
    and r2: "r2 = success_record L2 w2 (add_protocol u) soup d"
    by (simp_all add: scrape_source_def scrape_descriptor_def)
  have sets: "set (extract_products (hash_slot L1) soup d) = set (extract_products (hash_slot L2) soup d)"
    "set (extract_certifications (hash_slot L1) soup) = set (extract_certifications (hash_slot L2) soup)"
    "set (extract_services (hash_slot L1) soup d) = set (extract_services (hash_slot L2) soup d)"
    by (simp_all add: extract_products_def extract_certifications_def extract_services_def
        Let_def set_list_of_set)
  have once: "distinct (extract_products (hash_slot L1) soup d)"
    "distinct (extract_certifications (hash_slot L1) soup)"
    "distinct (extract_services (hash_slot L1) soup d)"
    by (simp_all add: extract_products_def extract_certifications_def extract_services_def
        Let_def distinct_list_of_set)
  from Inr assms(5) sets once show ?thesis
    by (auto simp add: r1 r2 success_record_def)
qed

theorem extraction_up_to_hash_order_witness:
  "scrape_source shop_lib shop_world (Dict shop_source) =
     Inr (success_record shop_lib shop_world ''https://shop.example.com'' shop_soup shop_source)
   \<and> scrape_source reseeded_lib later_world (Dict shop_source) =
     Inr (success_record reseeded_lib later_world ''https://shop.example.com'' shop_soup shop_source)
   \<and> r_title (success_record shop_lib shop_world ''https://shop.example.com'' shop_soup
                shop_source) = Some ''Green Supply''
   \<and> r_title (success_record reseeded_lib later_world ''https://shop.example.com'' shop_soup
                shop_source) = Some ''Green Supply''
   \<and> r_products (success_record shop_lib shop_world ''https://shop.example.com'' shop_soup
                shop_source) = Some [''Shop Seeds'', ''Coco Coir'', ''Seeds'']
   \<and> map_option set (r_products (success_record reseeded_lib later_world
          ''https://shop.example.com'' shop_soup shop_source)) =
       Some {''Shop Seeds'', ''Coco Coir'', ''Seeds''}"
proof -
  let ?r1 = "success_record shop_lib shop_world ''https://shop.example.com'' shop_soup shop_source"
  let ?r2 = "success_record reseeded_lib later_world ''https://shop.example.com'' shop_soup
               shop_source"
  have u: "d_url shop_source = Some ''shop.example.com''" "''shop.example.com'' \<noteq> []"
    by (simp_all add: shop_source_def)
  have a: "add_protocol ''shop.example.com'' = ''https://shop.example.com''"
    by (simp add: add_protocol_def startswith_def)
  have g1: "http_get shop_world (add_protocol ''shop.example.com'') = Response 200 (TextOk shop_html)"
    by (simp add: shop_world_def a)
  have g2: "http_get later_world (add_protocol ''shop.example.com'') = Response 200 (TextOk shop_html)"
    by (simp add: later_world_def shop_world_def a)
  have f: "re_findall shop_lib = re_findall reseeded_lib"
    and h: "html_parser shop_lib = html_parser reseeded_lib"
    by (simp_all add: reseeded_lib_def)
  have p: "html_parser shop_lib shop_html = Inr shop_soup"
    by (simp add: shop_lib_def)
  have slot: "hash_slot shop_lib = (\<lambda>table x. 0)"
    by (simp add: shop_lib_def)
  note det = extraction_up_to_hash_order [OF u g1 g2 f h shop_scrapes(1) shop_scrapes(3)]
  from det p have "r_title ?r1 = Some (extract_title shop_soup)"
    by blast
  then have t1: "r_title ?r1 = Some ''Green Supply''"
    by (simp only: shop_title)
  from det have "r_title ?r1 = r_title ?r2"
    by blast
  with t1 have t2: "r_title ?r2 = Some ''Green Supply''"
    by simp
  from det p have "r_products ?r1 = Some (extract_products (hash_slot shop_lib) shop_soup shop_source)"
    by blast
  then have p1: "r_products ?r1 = Some [''Shop Seeds'', ''Coco Coir'', ''Seeds'']"
    by (simp only: slot shop_products)
  from det have "map_option set (r_products ?r1) = map_option set (r_products ?r2)"
    by blast
  then have "map_option set (r_products ?r2) = map_option set (Some [''Shop Seeds'', ''Coco Coir'', ''Seeds''])"
    by (simp only: p1)
  then have p2: "map_option set (r_products ?r2) = Some {''Shop Seeds'', ''Coco Coir'', ''Seeds''}"
    by simp
  show ?thesis
    by (intro conjI shop_scrapes(1) shop_scrapes(3) t1 t2 p1 p2)
qed

text \<open>
  Two processes with different hash seeds, the same page and the same descriptor: the
  products come in different orders, so the values are not identical.
\<close>

theorem products_order_depends_on_hash:
  "scrape_source shop_lib shop_world (Dict shop_source) =
     Inr (success_record shop_lib shop_world ''https://shop.example.com'' shop_soup shop_source)
   \<and> scrape_source reseeded_lib shop_world (Dict shop_source) =
     Inr (success_record reseeded_lib shop_world ''https://shop.example.com'' shop_soup shop_source)
   \<and> r_products (success_record shop_lib shop_world ''https://shop.example.com'' shop_soup
                   shop_source) = Some [''Shop Seeds'', ''Coco Coir'', ''Seeds'']
   \<and> r_products (success_record reseeded_lib shop_world ''https://shop.example.com'' shop_soup
                   shop_source) = Some [''Seeds'', ''Coco Coir'', ''Shop Seeds'']"
proof -
  have "hash_slot shop_lib = (\<lambda>table x. 0)"
    and "hash_slot reseeded_lib = (\<lambda>table x. length x)"
    by (simp_all add: shop_lib_def reseeded_lib_def)
  then show ?thesis
    by (simp add: shop_scrapes success_record_def shop_products)
qed

end
